theory Spec2Isabelle
  imports Complex_Main "HOL-Library.Monad_Syntax"
begin

section \<open>Warehouse backend: pallet routes over the PostgreSQL schema\<close>

text \<open>
  The development embeds the handlers of \<^verbatim>\<open>routes/pallets.js\<close> (create, scan, history,
  update, delete), the one statement the QR routes run on the pallets table, and the
  tables of \<^verbatim>\<open>database/schema.sql\<close> they read and write. A handler is a function from
  the request and the database to the response and the database after the request.
  A SQL statement is a function on the database that yields \<open>None\<close> where PostgreSQL
  raises (the handlers never look at the error code, they only catch). A statement raises
  where the schema or a column's input function rejects it; a lost connection is not
  modelled.
\<close>

subsection \<open>JavaScript values of a JSON request body\<close>

text \<open>
  \<^verbatim>\<open>express.json()\<close> parses the body, so a field is a JSON value, or \<open>undefined\<close> when
  the key is absent. The handlers test a number for truthiness and hand it to the driver,
  nothing else, so a double is modelled by the rational it denotes (\<open>-0\<close> is \<open>0\<close>);
  \<open>NaN\<close> cannot come out of JSON.
\<close>

datatype jsval =
    JUndefined
  | JNull
  | JBool bool
  | JNum rat
  | JStr string
  | JArr "jsval list"
  | JObj "(string \<times> jsval) list"

text \<open>\<^verbatim>\<open>!v\<close> is false exactly on the truthy values.\<close>

fun truthy :: "jsval \<Rightarrow> bool" where
  "truthy JUndefined = False"
| "truthy JNull = False"
| "truthy (JBool b) = b"
| "truthy (JNum q) = (q \<noteq> 0)"
| "truthy (JStr s) = (s \<noteq> [])"
| "truthy (JArr xs) = True"
| "truthy (JObj kvs) = True"

text \<open>
  \<^verbatim>\<open>Array.prototype.includes\<close> on an array of strings: only a string with the same
  characters is found.
\<close>

fun js_includes :: "string list \<Rightarrow> jsval \<Rightarrow> bool" where
  "js_includes xs (JStr s) = (s \<in> set xs)"
| "js_includes xs v = False"

text \<open>The keys the handlers destructure from \<^verbatim>\<open>req.body\<close>.\<close>

record body =
  palletId :: jsval
  itemCode :: jsval
  itemName :: jsval
  itemQuantity :: jsval
  unitNo :: jsval
  weightKg :: jsval
  productionDate :: jsval
  expiryDate :: jsval
  warehouseLocation :: jsval
  destination :: jsval
  newStatus :: jsval
  scanNotes :: jsval
  scanLatitude :: jsval
  scanLongitude :: jsval

definition empty_body :: body where
  "empty_body = \<lparr> palletId = JUndefined, itemCode = JUndefined, itemName = JUndefined,
     itemQuantity = JUndefined, unitNo = JUndefined, weightKg = JUndefined,
     productionDate = JUndefined, expiryDate = JUndefined, warehouseLocation = JUndefined,
     destination = JUndefined, newStatus = JUndefined, scanNotes = JUndefined,
     scanLatitude = JUndefined, scanLongitude = JUndefined \<rparr>"

subsection \<open>The tables\<close>

type_synonym timestamp = int

text \<open>
  A row of \<open>users\<close> as \<^verbatim>\<open>verifyToken\<close> attaches it to the request. The columns
  \<open>username\<close> and \<open>full_name\<close> are NOT NULL, \<open>flo_id\<close> is nullable.
\<close>

record user =
  username :: string
  full_name :: string
  user_role :: string
  flo_id :: "string option"

text \<open>
  A row of \<open>pallets\<close>. A NOT NULL column has the type of its values, a nullable one an
  option. The surrogate key \<open>id SERIAL\<close> is read by no handler and is left out; rows are
  kept in insertion order.
\<close>

record pallet =
  pallet_id :: string
  item_code :: string
  item_name :: string
  item_quantity :: int
  unit_no :: "string option"
  weight_kg :: "rat option"
  production_date :: "int option"
  expiry_date :: "int option"
  status :: string
  warehouse_location :: "string option"
  destination_col :: "string option"
  qr_code_url :: "string option"
  created_at :: timestamp
  updated_at :: timestamp

text \<open>A row of \<open>pallet_scans\<close>, the audit trail.\<close>

record scan =
  scan_pallet_id :: string
  scan_flo_id :: string
  flo_name :: string
  previous_status :: "string option"
  new_status :: string
  scan_location :: "string option"
  latitude :: "rat option"
  longitude :: "rat option"
  notes_col :: "string option"
  scanned_at :: timestamp

record db =
  users :: "user list"
  pallets :: "pallet list"
  pallet_scans :: "scan list"

text \<open>The seven values of the CHECK constraint on \<open>pallets.status\<close>; the scan route
  carries the same list as \<^verbatim>\<open>validStatuses\<close>.\<close>

definition validStatuses :: "string list" where
  "validStatuses =
     [''At Production'',
      ''Picked from Production'',
      ''In Transit to Warehouse'',
      ''At Warehouse'',
      ''Picked for Delivery'',
      ''Out for Delivery'',
      ''Delivered'']"

subsection \<open>Driver and server input functions\<close>

text \<open>
  The node-pg driver and the PostgreSQL input functions are not part of the repository.
  What they do to a string or to null is fixed below; the rest is a parameter of every
  statement: the text the driver sends for a number, boolean, array or object, and the
  server's readers for INTEGER, DECIMAL(p, s) and DATE columns. Every theorem holds for
  every such library.
\<close>

record pglib =
  js_text :: "jsval \<Rightarrow> string"
  int4_in :: "string \<Rightarrow> int option"
  numeric_in :: "nat \<Rightarrow> nat \<Rightarrow> string \<Rightarrow> rat option"
  date_in :: "string \<Rightarrow> int option"

text \<open>\<^verbatim>\<open>prepareValue\<close>: null and undefined are sent as NULL, a string as it is.\<close>

fun prepareValue :: "pglib \<Rightarrow> jsval \<Rightarrow> string option" where
  "prepareValue L JUndefined = None"
| "prepareValue L JNull = None"
| "prepareValue L (JStr s) = Some s"
| "prepareValue L v = Some (js_text L v)"

text \<open>
  The server refuses a parameter whose text holds the character U+0000 when the
  parameter is bound (SQLSTATE 22021), whatever the statement does with it.
\<close>

definition nul_free :: "string \<Rightarrow> bool" where
  "nul_free s = (CHR 0x00 \<notin> set s)"

text \<open>
  Storing into VARCHAR(n): a longer text is an error unless the excess is all spaces,
  which are cut. The outer option is failure, the inner one NULL.
\<close>

definition varchar_in :: "nat \<Rightarrow> string option \<Rightarrow> string option option" where
  "varchar_in n t =
     (case t of
        None \<Rightarrow> Some None
      | Some s \<Rightarrow>
          if \<not> nul_free s then None
          else if length s \<le> n then Some (Some s)
          else if list_all (\<lambda>c. c = CHR '' '') (drop n s) then Some (Some (take n s))
          else None)"

definition text_in :: "string option \<Rightarrow> string option option" where
  "text_in t =
     (case t of
        None \<Rightarrow> Some None
      | Some s \<Rightarrow> if nul_free s then Some (Some s) else None)"

definition integer_in :: "pglib \<Rightarrow> string option \<Rightarrow> int option option" where
  "integer_in L t =
     (case t of
        None \<Rightarrow> Some None
      | Some s \<Rightarrow>
          if \<not> nul_free s then None
          else (case int4_in L s of None \<Rightarrow> None | Some i \<Rightarrow> Some (Some i)))"

definition decimal_in :: "pglib \<Rightarrow> nat \<Rightarrow> nat \<Rightarrow> string option \<Rightarrow> rat option option" where
  "decimal_in L p s t =
     (case t of
        None \<Rightarrow> Some None
      | Some x \<Rightarrow>
          if \<not> nul_free x then None
          else (case numeric_in L p s x of None \<Rightarrow> None | Some q \<Rightarrow> Some (Some q)))"

definition date_col_in :: "pglib \<Rightarrow> string option \<Rightarrow> int option option" where
  "date_col_in L t =
     (case t of
        None \<Rightarrow> Some None
      | Some s \<Rightarrow>
          if \<not> nul_free s then None
          else (case date_in L s of None \<Rightarrow> None | Some d \<Rightarrow> Some (Some d)))"

text \<open>A NOT NULL column rejects NULL.\<close>

definition not_null :: "'a option option \<Rightarrow> 'a option" where
  "not_null x = (case x of None \<Rightarrow> None | Some v \<Rightarrow> v)"

subsection \<open>Responses\<close>

text \<open>
  \<^verbatim>\<open>res.status(c).json({error: m})\<close> is \<open>Failure c m\<close>; a 200 or 201 answer is
  \<open>Success c payload\<close>.
\<close>

datatype 'a response = Success nat 'a | Failure nat string

subsection \<open>Statements on \<open>pallets\<close>\<close>

text \<open>
  \<^verbatim>\<open>SELECT ... FROM pallets WHERE pallet_id = $1\<close> (also with FOR UPDATE). It fails on
  a key the server refuses to bind; NULL equals no \<open>pallet_id\<close>.
\<close>

definition select_pallets :: "pglib \<Rightarrow> jsval \<Rightarrow> db \<Rightarrow> pallet list option" where
  "select_pallets L key d =
     (case prepareValue L key of
        None \<Rightarrow> Some []
      | Some k \<Rightarrow>
          if \<not> nul_free k then None
          else Some (filter (\<lambda>p. pallet_id p = k) (pallets d)))"

text \<open>
  The INSERT of the create route. It names ten columns; \<open>status\<close> takes its default
  \<open>'At Production'\<close>, \<open>qr_code_url\<close> is NULL, both timestamps are CURRENT_TIMESTAMP.
  It fails on a value a column cannot read, on NULL in a NOT NULL column and on a
  \<open>pallet_id\<close> already in the table (UNIQUE). RETURNING * gives the new row.
\<close>

definition insert_pallet ::
  "pglib \<Rightarrow> timestamp \<Rightarrow> jsval \<Rightarrow> jsval \<Rightarrow> jsval \<Rightarrow> jsval \<Rightarrow> jsval \<Rightarrow> jsval \<Rightarrow> jsval \<Rightarrow> jsval
     \<Rightarrow> jsval \<Rightarrow> jsval \<Rightarrow> db \<Rightarrow> (pallet list \<times> db) option" where
  "insert_pallet L now v1 v2 v3 v4 v5 v6 v7 v8 v9 v10 d =
     do {
       pid \<leftarrow> not_null (varchar_in 50 (prepareValue L v1));
       code \<leftarrow> not_null (varchar_in 50 (prepareValue L v2));
       name \<leftarrow> not_null (varchar_in 100 (prepareValue L v3));
       qty \<leftarrow> not_null (integer_in L (prepareValue L v4));
       unit \<leftarrow> varchar_in 50 (prepareValue L v5);
       weight \<leftarrow> decimal_in L 10 2 (prepareValue L v6);
       pdate \<leftarrow> date_col_in L (prepareValue L v7);
       edate \<leftarrow> date_col_in L (prepareValue L v8);
       loc \<leftarrow> varchar_in 50 (prepareValue L v9);
       dest \<leftarrow> varchar_in 100 (prepareValue L v10);
       if pid \<in> set (map pallet_id (pallets d)) then None
       else
         let row = \<lparr> pallet_id = pid, item_code = code, item_name = name,
                     item_quantity = qty, unit_no = unit, weight_kg = weight,
                     production_date = pdate, expiry_date = edate,
                     status = ''At Production'', warehouse_location = loc,
                     destination_col = dest, qr_code_url = None,
                     created_at = now, updated_at = now \<rparr>
         in Some ([row], d\<lparr>pallets := pallets d @ [row]\<rparr>)
     }"

subsection \<open>POST /api/pallets: create a pallet\<close>

definition create_pallet :: "pglib \<Rightarrow> timestamp \<Rightarrow> body \<Rightarrow> db \<Rightarrow> pallet option response \<times> db" where
  "create_pallet L now b d =
     (if \<not> truthy (palletId b) \<or> \<not> truthy (itemCode b) \<or> \<not> truthy (itemName b)
         \<or> \<not> truthy (itemQuantity b)
      then (Failure 400 ''Pallet ID, item code, item name, and quantity are required'', d)
      else
        (case select_pallets L (palletId b) d of
           None \<Rightarrow> (Failure 500 ''Failed to create pallet'', d)
         | Some existing \<Rightarrow>
             if length existing > 0 then (Failure 400 ''Pallet ID already exists'', d)
             else
               (case insert_pallet L now (palletId b) (itemCode b) (itemName b)
                       (itemQuantity b) (unitNo b) (weightKg b) (productionDate b)
                       (expiryDate b) (warehouseLocation b) (destination b) d of
                  None \<Rightarrow> (Failure 500 ''Failed to create pallet'', d)
                | Some (rows, d') \<Rightarrow>
                    (Success 201 (case rows of [] \<Rightarrow> None | r # _ \<Rightarrow> Some r), d'))))"

subsection \<open>UPDATE statements on \<open>pallets\<close>\<close>

text \<open>
  The scan and update routes build their SET lists at run time, so an UPDATE is a list
  of assignments: a column with its parameter, or \<open>updated_at = CURRENT_TIMESTAMP\<close>.
\<close>

datatype pcol =
    Col_item_code
  | Col_item_name
  | Col_item_quantity
  | Col_unit_no
  | Col_weight_kg
  | Col_production_date
  | Col_expiry_date
  | Col_status
  | Col_warehouse_location
  | Col_destination
  | Col_qr_code_url

datatype setter = SetCol pcol jsval | SetUpdatedAt

text \<open>
  One assignment. The parameter is read for the column's type first (failure of the
  whole statement); what is left is a function on a row that fails where the row would
  break NOT NULL or the CHECK on \<open>status\<close>.
\<close>

fun assign :: "pglib \<Rightarrow> timestamp \<Rightarrow> setter \<Rightarrow> (pallet \<Rightarrow> pallet option) option" where
  "assign L now SetUpdatedAt = Some (\<lambda>p. Some (p\<lparr>updated_at := now\<rparr>))"
| "assign L now (SetCol Col_item_code v) =
     map_option (\<lambda>x p. map_option (\<lambda>s. p\<lparr>item_code := s\<rparr>) x)
       (varchar_in 50 (prepareValue L v))"
| "assign L now (SetCol Col_item_name v) =
     map_option (\<lambda>x p. map_option (\<lambda>s. p\<lparr>item_name := s\<rparr>) x)
       (varchar_in 100 (prepareValue L v))"
| "assign L now (SetCol Col_item_quantity v) =
     map_option (\<lambda>x p. map_option (\<lambda>i. p\<lparr>item_quantity := i\<rparr>) x)
       (integer_in L (prepareValue L v))"
| "assign L now (SetCol Col_unit_no v) =
     map_option (\<lambda>x p. Some (p\<lparr>unit_no := x\<rparr>)) (varchar_in 50 (prepareValue L v))"
| "assign L now (SetCol Col_weight_kg v) =
     map_option (\<lambda>x p. Some (p\<lparr>weight_kg := x\<rparr>)) (decimal_in L 10 2 (prepareValue L v))"
| "assign L now (SetCol Col_production_date v) =
     map_option (\<lambda>x p. Some (p\<lparr>production_date := x\<rparr>)) (date_col_in L (prepareValue L v))"
| "assign L now (SetCol Col_expiry_date v) =
     map_option (\<lambda>x p. Some (p\<lparr>expiry_date := x\<rparr>)) (date_col_in L (prepareValue L v))"
| "assign L now (SetCol Col_status v) =
     map_option
       (\<lambda>x p. (case x of
                  None \<Rightarrow> None
                | Some s \<Rightarrow> if s \<in> set validStatuses then Some (p\<lparr>status := s\<rparr>) else None))
       (varchar_in 50 (prepareValue L v))"
| "assign L now (SetCol Col_warehouse_location v) =
     map_option (\<lambda>x p. Some (p\<lparr>warehouse_location := x\<rparr>))
       (varchar_in 50 (prepareValue L v))"
| "assign L now (SetCol Col_destination v) =
     map_option (\<lambda>x p. Some (p\<lparr>destination_col := x\<rparr>))
       (varchar_in 100 (prepareValue L v))"
| "assign L now (SetCol Col_qr_code_url v) =
     map_option (\<lambda>x p. Some (p\<lparr>qr_code_url := x\<rparr>)) (text_in (prepareValue L v))"

fun assigns :: "pglib \<Rightarrow> timestamp \<Rightarrow> setter list \<Rightarrow> (pallet \<Rightarrow> pallet option) option" where
  "assigns L now [] = Some Some"
| "assigns L now (s # ss) =
     do {
       f \<leftarrow> assign L now s;
       g \<leftarrow> assigns L now ss;
       Some (\<lambda>p. Option.bind (f p) g)
     }"

text \<open>
  The rows that satisfy the WHERE clause are rewritten in place; the first component is
  what RETURNING * gives.
\<close>

fun update_rows ::
  "(pallet \<Rightarrow> bool) \<Rightarrow> (pallet \<Rightarrow> pallet option) \<Rightarrow> pallet list
     \<Rightarrow> (pallet list \<times> pallet list) option" where
  "update_rows P f [] = Some ([], [])"
| "update_rows P f (p # ps) =
     (if P p
      then do {
             p' \<leftarrow> f p;
             (rs, ps') \<leftarrow> update_rows P f ps;
             Some (p' # rs, p' # ps')
           }
      else do {
             (rs, ps') \<leftarrow> update_rows P f ps;
             Some (rs, p # ps')
           })"

text \<open>\<^verbatim>\<open>UPDATE pallets SET ... WHERE pallet_id = $k RETURNING *\<close>.\<close>

definition update_pallets ::
  "pglib \<Rightarrow> timestamp \<Rightarrow> setter list \<Rightarrow> jsval \<Rightarrow> db \<Rightarrow> (pallet list \<times> db) option" where
  "update_pallets L now sets key d =
     do {
       f \<leftarrow> assigns L now sets;
       (case prepareValue L key of
          None \<Rightarrow> Some ([], d)
        | Some k \<Rightarrow>
            if \<not> nul_free k then None
            else
              do {
                (rs, ps') \<leftarrow> update_rows (\<lambda>p. pallet_id p = k) f (pallets d);
                Some (rs, d\<lparr>pallets := ps'\<rparr>)
              })
     }"

subsection \<open>Statements on \<open>pallet_scans\<close>\<close>

text \<open>
  The INSERT of the scan route. \<open>pallet_id\<close> must name a row of \<open>pallets\<close> and
  \<open>flo_id\<close> a row of \<open>users\<close> (the two foreign keys); \<open>scanned_at\<close> takes its default
  CURRENT_TIMESTAMP.
\<close>

definition insert_scan ::
  "pglib \<Rightarrow> timestamp \<Rightarrow> jsval \<Rightarrow> jsval \<Rightarrow> jsval \<Rightarrow> jsval \<Rightarrow> jsval \<Rightarrow> jsval \<Rightarrow> jsval \<Rightarrow> jsval
     \<Rightarrow> jsval \<Rightarrow> db \<Rightarrow> db option" where
  "insert_scan L now v1 v2 v3 v4 v5 v6 v7 v8 v9 d =
     do {
       pid \<leftarrow> not_null (varchar_in 50 (prepareValue L v1));
       fid \<leftarrow> not_null (varchar_in 50 (prepareValue L v2));
       fname \<leftarrow> not_null (varchar_in 100 (prepareValue L v3));
       prev \<leftarrow> varchar_in 50 (prepareValue L v4);
       new \<leftarrow> not_null (varchar_in 50 (prepareValue L v5));
       loc \<leftarrow> varchar_in 50 (prepareValue L v6);
       lat \<leftarrow> decimal_in L 10 8 (prepareValue L v7);
       lon \<leftarrow> decimal_in L 11 8 (prepareValue L v8);
       note \<leftarrow> text_in (prepareValue L v9);
       if pid \<notin> set (map pallet_id (pallets d)) then None
       else if Some fid \<notin> set (map flo_id (users d)) then None
       else
         Some (d\<lparr>pallet_scans := pallet_scans d @
                 [\<lparr> scan_pallet_id = pid, scan_flo_id = fid, flo_name = fname,
                    previous_status = prev, new_status = new, scan_location = loc,
                    latitude = lat, longitude = lon, notes_col = note,
                    scanned_at = now \<rparr>]\<rparr>)
     }"

text \<open>
  \<^verbatim>\<open>SELECT * FROM pallet_scans WHERE pallet_id = $1 ORDER BY scanned_at DESC\<close>. Rows
  with the same \<open>scanned_at\<close> come in an order SQL leaves open; here they stay in table
  order, and nothing below rests on that.
\<close>

definition select_scans :: "pglib \<Rightarrow> jsval \<Rightarrow> db \<Rightarrow> scan list option" where
  "select_scans L key d =
     (case prepareValue L key of
        None \<Rightarrow> Some []
      | Some k \<Rightarrow>
          if \<not> nul_free k then None
          else Some (sort_key (\<lambda>s. - scanned_at s)
                       (filter (\<lambda>s. scan_pallet_id s = k) (pallet_scans d))))"

text \<open>
  \<^verbatim>\<open>DELETE FROM pallets WHERE pallet_id = $1 RETURNING pallet_id\<close>; the foreign key of
  \<open>pallet_scans\<close> is ON DELETE CASCADE.
\<close>

definition delete_pallets :: "pglib \<Rightarrow> jsval \<Rightarrow> db \<Rightarrow> (string list \<times> db) option" where
  "delete_pallets L key d =
     (case prepareValue L key of
        None \<Rightarrow> Some ([], d)
      | Some k \<Rightarrow>
          if \<not> nul_free k then None
          else
            Some (map pallet_id (filter (\<lambda>p. pallet_id p = k) (pallets d)),
                  d\<lparr>pallets := filter (\<lambda>p. pallet_id p \<noteq> k) (pallets d),
                    pallet_scans := filter (\<lambda>s. scan_pallet_id s \<noteq> k) (pallet_scans d)\<rparr>))"

subsection \<open>POST /api/pallets/:palletId/scan\<close>

text \<open>\<^verbatim>\<open>req.user.flo_id || req.user.username\<close>\<close>

definition actor_id :: "user \<Rightarrow> jsval" where
  "actor_id u =
     (case flo_id u of
        None \<Rightarrow> JStr (username u)
      | Some f \<Rightarrow> if truthy (JStr f) then JStr f else JStr (username u))"

text \<open>The SET list of the scan's UPDATE: the location only when it is truthy.\<close>

definition scan_sets :: "body \<Rightarrow> setter list" where
  "scan_sets b =
     [SetCol Col_status (newStatus b), SetUpdatedAt] @
     (if truthy (warehouseLocation b)
      then [SetCol Col_warehouse_location (warehouseLocation b)] else [])"

text \<open>
  The handler validates the status, then works in a transaction: \<open>tx\<close> is the database
  as the transaction sees it. COMMIT makes \<open>tx\<close> the database; ROLLBACK, also the one of
  the catch block, leaves the database as it was at BEGIN. The row lock of
  \<^verbatim>\<open>SELECT ... FOR UPDATE\<close> serializes the scans of one pallet, so requests are taken one
  after the other, in commit order. \<open>now\<close> is CURRENT_TIMESTAMP, the time at which the
  transaction started; it is an input, since nothing ties start times to commit order.
\<close>

definition scan_pallet ::
  "pglib \<Rightarrow> timestamp \<Rightarrow> user \<Rightarrow> string \<Rightarrow> body \<Rightarrow> db
     \<Rightarrow> (pallet option \<times> string \<times> jsval) response \<times> db" where
  "scan_pallet L now u pid b d =
     (if \<not> js_includes validStatuses (newStatus b) then (Failure 400 ''Invalid status'', d)
      else
        let tx = d in
        (case select_pallets L (JStr pid) tx of
           None \<Rightarrow> (Failure 500 ''Failed to scan pallet'', d)
         | Some [] \<Rightarrow> (Failure 404 ''Pallet not found'', d)
         | Some (pallet # _) \<Rightarrow>
             let previousStatus = status pallet in
               (case do {
                       (updatedPallet, tx1) \<leftarrow> update_pallets L now (scan_sets b) (JStr pid) tx;
                       tx2 \<leftarrow> insert_scan L now (JStr pid) (actor_id u) (JStr (full_name u))
                                (JStr previousStatus) (newStatus b) (warehouseLocation b)
                                (scanLatitude b) (scanLongitude b) (scanNotes b) tx1;
                       Some (updatedPallet, tx2)
                     } of
                  None \<Rightarrow> (Failure 500 ''Failed to scan pallet'', d)
                | Some (updatedPallet, tx2) \<Rightarrow>
                    (Success 200
                       (case updatedPallet of [] \<Rightarrow> None | r # _ \<Rightarrow> Some r,
                        previousStatus, newStatus b),
                     tx2))))"

subsection \<open>GET /api/pallets/:palletId/history\<close>

definition get_history :: "pglib \<Rightarrow> string \<Rightarrow> db \<Rightarrow> (string \<times> scan list) response" where
  "get_history L pid d =
     (case select_scans L (JStr pid) d of
        None \<Rightarrow> Failure 500 ''Failed to fetch pallet history''
      | Some rows \<Rightarrow> Success 200 (pid, rows))"

subsection \<open>PUT /api/pallets/:palletId\<close>

definition update_fields :: "body \<Rightarrow> setter list" where
  "update_fields b =
     (if itemCode b \<noteq> JUndefined then [SetCol Col_item_code (itemCode b)] else []) @
     (if itemName b \<noteq> JUndefined then [SetCol Col_item_name (itemName b)] else []) @
     (if itemQuantity b \<noteq> JUndefined then [SetCol Col_item_quantity (itemQuantity b)] else []) @
     (if unitNo b \<noteq> JUndefined then [SetCol Col_unit_no (unitNo b)] else []) @
     (if weightKg b \<noteq> JUndefined then [SetCol Col_weight_kg (weightKg b)] else []) @
     (if productionDate b \<noteq> JUndefined
      then [SetCol Col_production_date (productionDate b)] else []) @
     (if expiryDate b \<noteq> JUndefined then [SetCol Col_expiry_date (expiryDate b)] else []) @
     (if warehouseLocation b \<noteq> JUndefined
      then [SetCol Col_warehouse_location (warehouseLocation b)] else []) @
     (if destination b \<noteq> JUndefined then [SetCol Col_destination (destination b)] else [])"

definition update_pallet ::
  "pglib \<Rightarrow> timestamp \<Rightarrow> string \<Rightarrow> body \<Rightarrow> db \<Rightarrow> pallet option response \<times> db" where
  "update_pallet L now pid b d =
     (let updates = update_fields b in
      if length updates = 0 then (Failure 400 ''No fields to update'', d)
      else
        (case update_pallets L now (updates @ [SetUpdatedAt]) (JStr pid) d of
           None \<Rightarrow> (Failure 500 ''Failed to update pallet'', d)
         | Some (rows, d') \<Rightarrow>
             if length rows = 0 then (Failure 404 ''Pallet not found'', d')
             else (Success 200 (case rows of [] \<Rightarrow> None | r # _ \<Rightarrow> Some r), d')))"

subsection \<open>DELETE /api/pallets/:palletId\<close>

definition delete_pallet :: "pglib \<Rightarrow> string \<Rightarrow> db \<Rightarrow> string response \<times> db" where
  "delete_pallet L pid d =
     (case delete_pallets L (JStr pid) d of
        None \<Rightarrow> (Failure 500 ''Failed to delete pallet'', d)
      | Some (rows, d') \<Rightarrow>
          if length rows = 0 then (Failure 404 ''Pallet not found'', d')
          else (Success 200 ''Pallet deleted successfully'', d'))"

subsection \<open>The QR routes' statement\<close>

text \<open>
  \<^verbatim>\<open>UPDATE pallets SET qr_code_url = $1 WHERE pallet_id = $2\<close>, run by both QR routes
  with the image's data URL. A failure is caught by the route and nothing is written.
\<close>

definition set_qr_code_url :: "pglib \<Rightarrow> jsval \<Rightarrow> jsval \<Rightarrow> db \<Rightarrow> db" where
  "set_qr_code_url L url key d =
     (case update_pallets L 0 [SetCol Col_qr_code_url url] key d of
        None \<Rightarrow> d
      | Some (rows, d') \<Rightarrow> d')"

subsection \<open>Request sequences\<close>

datatype request =
    Create timestamp body
  | Scan timestamp user string body
  | History string
  | Update timestamp string body
  | Delete string
  | SetQr jsval jsval

fun step :: "pglib \<Rightarrow> db \<Rightarrow> request \<Rightarrow> db" where
  "step L d (Create now b) = snd (create_pallet L now b d)"
| "step L d (Scan now u pid b) = snd (scan_pallet L now u pid b d)"
| "step L d (History pid) = d"
| "step L d (Update now pid b) = snd (update_pallet L now pid b d)"
| "step L d (Delete pid) = snd (delete_pallet L pid d)"
| "step L d (SetQr url key) = set_qr_code_url L url key d"

definition run :: "pglib \<Rightarrow> db \<Rightarrow> request list \<Rightarrow> db" where
  "run L d rs = foldl (step L) d rs"

subsection \<open>What the schema guarantees of a stored database\<close>

text \<open>
  UNIQUE and VARCHAR(50) on \<open>pallets.pallet_id\<close>, the CHECK on \<open>pallets.status\<close>, and
  the two foreign keys of \<open>pallet_scans\<close>.
\<close>

definition schema_ok :: "db \<Rightarrow> bool" where
  "schema_ok d =
     (distinct (map pallet_id (pallets d))
      \<and> list_all (\<lambda>p. length (pallet_id p) \<le> 50 \<and> status p \<in> set validStatuses) (pallets d)
      \<and> list_all (\<lambda>s. scan_pallet_id s \<in> set (map pallet_id (pallets d))
                      \<and> Some (scan_flo_id s) \<in> set (map flo_id (users d))) (pallet_scans d))"

text \<open>The pallet a \<open>palletId\<close> names: the first row the SELECT gives.\<close>

definition the_pallet :: "string \<Rightarrow> db \<Rightarrow> pallet option" where
  "the_pallet pid d = find (\<lambda>p. pallet_id p = pid) (pallets d)"

text \<open>The audit rows of a pallet in table order, that is in commit order.\<close>

definition audit_rows :: "string \<Rightarrow> db \<Rightarrow> scan list" where
  "audit_rows pid d = filter (\<lambda>s. scan_pallet_id s = pid) (pallet_scans d)"

text \<open>
  A sequence of scans of one pallet, each with the clock reading of its transaction and
  the user of its request; \<open>None\<close> as soon as one of them is not accepted.
\<close>

fun scan_all :: "pglib \<Rightarrow> string \<Rightarrow> (timestamp \<times> user \<times> body) list \<Rightarrow> db \<Rightarrow> db option" where
  "scan_all L pid [] d = Some d"
| "scan_all L pid ((now, u, b) # rs) d =
     (case scan_pallet L now u pid b d of
        (Success c x, d') \<Rightarrow> scan_all L pid rs d'
      | (Failure c m, d') \<Rightarrow> None)"

text \<open>
  A list of audit rows, oldest first, is a chain from status \<open>s\<close> to status \<open>t\<close>: the
  first row starts at \<open>s\<close>, each row starts where the one before ended, the last ends
  at \<open>t\<close>.
\<close>

fun chained :: "string \<Rightarrow> scan list \<Rightarrow> string \<Rightarrow> bool" where
  "chained s [] t = (s = t)"
| "chained s (r # rs) t = (previous_status r = Some s \<and> chained (new_status r) rs t)"

subsection \<open>Notions used to state the properties\<close>

text \<open>An assignment to \<open>status\<close>.\<close>

fun sets_status :: "setter \<Rightarrow> bool" where
  "sets_status (SetCol Col_status v) = True"
| "sets_status s = False"

text \<open>A scan request.\<close>

fun is_scan :: "request \<Rightarrow> bool" where
  "is_scan (Scan now u pid b) = True"
| "is_scan r = False"

text \<open>An answer with status 200 or 201.\<close>

fun accepted :: "'a response \<Rightarrow> bool" where
  "accepted (Success c x) = True"
| "accepted (Failure c m) = False"

text \<open>The database with the status of the pallet \<open>pid\<close> replaced by \<open>t\<close>.\<close>

definition restatus :: "string \<Rightarrow> string \<Rightarrow> db \<Rightarrow> db" where
  "restatus pid t d =
     d\<lparr>pallets := map (\<lambda>p. if pallet_id p = pid then p\<lparr>status := t\<rparr> else p) (pallets d)\<rparr>"

text \<open>
  What a scan needs besides a valid status: a \<open>palletId\<close> the server binds and that
  names a stored pallet, a location, coordinates and a note that the columns of
  \<open>pallet_scans\<close> can read, a user name that fits \<open>flo_name\<close>, and an actor id that is
  the \<open>flo_id\<close> of some user. Neither the pallet's status nor the requested one occurs
  in it.
\<close>

definition scan_storable :: "pglib \<Rightarrow> user \<Rightarrow> string \<Rightarrow> body \<Rightarrow> db \<Rightarrow> bool" where
  "scan_storable L u pid b d =
     (nul_free pid \<and> the_pallet pid d \<noteq> None
      \<and> varchar_in 50 (prepareValue L (warehouseLocation b)) \<noteq> None
      \<and> (case not_null (varchar_in 50 (prepareValue L (actor_id u))) of
            None \<Rightarrow> False
          | Some fid \<Rightarrow> Some fid \<in> set (map flo_id (users d)))
      \<and> not_null (varchar_in 100 (prepareValue L (JStr (full_name u)))) \<noteq> None
      \<and> decimal_in L 10 8 (prepareValue L (scanLatitude b)) \<noteq> None
      \<and> decimal_in L 11 8 (prepareValue L (scanLongitude b)) \<noteq> None
      \<and> text_in (prepareValue L (scanNotes b)) \<noteq> None)"

text \<open>
  The row a scan writes: the new status and timestamp, and the location when one is
  stored (\<open>None\<close>: the UPDATE names no location).
\<close>

definition scan_write :: "string \<Rightarrow> timestamp \<Rightarrow> string option \<Rightarrow> pallet \<Rightarrow> pallet" where
  "scan_write s now loc p =
     (case loc of
        None \<Rightarrow> p\<lparr>status := s, updated_at := now\<rparr>
      | Some t \<Rightarrow> p\<lparr>status := s, updated_at := now, warehouse_location := Some t\<rparr>)"

text \<open>
  The location a scan stores for a request body: none for a falsy
  \<open>warehouseLocation\<close>, else the text the column keeps of it.
\<close>

definition stored_location :: "pglib \<Rightarrow> body \<Rightarrow> string option \<Rightarrow> bool" where
  "stored_location L b loc =
     (if truthy (warehouseLocation b)
      then loc \<noteq> None \<and> varchar_in 50 (prepareValue L (warehouseLocation b)) = Some loc
      else loc = None)"

subsection \<open>A library instance and data for the worked scenarios\<close>

text \<open>
  The scenarios below run the handlers with one small library: it writes an integral
  number in decimal and a boolean by its name, reads decimal integers, and knows no
  date. The database is the one the setup script leaves, without its sample pallet: the
  administrator and the operator FLO001.
\<close>

fun read_digits :: "string \<Rightarrow> nat \<Rightarrow> nat option" where
  "read_digits [] acc = Some acc"
| "read_digits (c # cs) acc =
     (let n = (of_char c :: nat) in
      if 48 \<le> n \<and> n \<le> 57 then read_digits cs (10 * acc + (n - 48)) else None)"

definition read_int :: "string \<Rightarrow> int option" where
  "read_int s =
     (case s of
        [] \<Rightarrow> None
      | c # cs \<Rightarrow>
          if c = CHR ''-''
          then (if cs = [] then None else map_option (\<lambda>n. - int n) (read_digits cs 0))
          else map_option int (read_digits s 0))"

function show_nat :: "nat \<Rightarrow> string" where
  "show_nat n =
     (if n < 10 then [char_of (48 + n)] else show_nat (n div 10) @ [char_of (48 + n mod 10)])"
  by pat_completeness auto
termination
  by (relation "measure id") auto

definition show_num :: "jsval \<Rightarrow> string" where
  "show_num v =
     (case v of
        JNum q \<Rightarrow>
          if q = of_int \<lfloor>q\<rfloor>
          then (if q < 0 then CHR ''-'' # show_nat (nat (- \<lfloor>q\<rfloor>)) else show_nat (nat \<lfloor>q\<rfloor>))
          else []
      | JBool c \<Rightarrow> (if c then ''true'' else ''false'')
      | _ \<Rightarrow> [])"

definition plain_lib :: pglib where
  "plain_lib =
     \<lparr> js_text = show_num,
       int4_in = (\<lambda>s. case read_int s of
                        None \<Rightarrow> None
                      | Some i \<Rightarrow> if - 2147483648 \<le> i \<and> i \<le> 2147483647 then Some i else None),
       numeric_in = (\<lambda>p s x. map_option of_int (read_int x)),
       date_in = (\<lambda>s. None) \<rparr>"

definition demo_admin :: user where
  "demo_admin = \<lparr> username = ''admin'', full_name = ''System Administrator'',
                  user_role = ''admin'', flo_id = None \<rparr>"

definition demo_flo :: user where
  "demo_flo = \<lparr> username = ''flo001'', full_name = ''John Forklift'',
                user_role = ''flo'', flo_id = Some ''FLO001'' \<rparr>"

definition demo_db :: db where
  "demo_db = \<lparr> users = [demo_admin, demo_flo], pallets = [], pallet_scans = [] \<rparr>"

definition demo_create :: body where
  "demo_create = empty_body \<lparr> palletId := JStr ''PLT001'', itemCode := JStr ''ITEM-001'',
                   itemName := JStr ''Widget A'', itemQuantity := JNum 100 \<rparr>"

text \<open>The database after the pallet PLT001 has been created at time 1.\<close>

definition demo_db1 :: db where
  "demo_db1 = snd (create_pallet plain_lib 1 demo_create demo_db)"

text \<open>The body \<^verbatim>\<open>{"newStatus": s}\<close>.\<close>

definition status_body :: "string \<Rightarrow> body" where
  "status_body s = empty_body \<lparr> newStatus := JStr s \<rparr>"

text \<open>The row of PLT001 as created, and the database after the operator has scanned it
  into the warehouse at time 5.\<close>

definition demo_pallet :: pallet where
  "demo_pallet = \<lparr> pallet_id = ''PLT001'', item_code = ''ITEM-001'', item_name = ''Widget A'',
                   item_quantity = 100, unit_no = None, weight_kg = None,
                   production_date = None, expiry_date = None, status = ''At Production'',
                   warehouse_location = None, destination_col = None, qr_code_url = None,
                   created_at = 1, updated_at = 1 \<rparr>"

definition demo_db2 :: db where
  "demo_db2 = snd (scan_pallet plain_lib 5 demo_flo ''PLT001'' (status_body ''At Warehouse'') demo_db1)"

text \<open>A \<open>palletId\<close> that ends in the character U+0000, as \<^verbatim>\<open>PLT%00\<close> in the URL gives.\<close>

definition nul_id :: string where
  "nul_id = ''PLT'' @ [CHR 0x00]"

text \<open>An administrative update that moves the pallet and corrects its quantity.\<close>

definition demo_update :: body where
  "demo_update = empty_body \<lparr> itemQuantity := JNum 50, warehouseLocation := JStr ''B-01-2'' \<rparr>"

text \<open>
  Three scans of PLT001 in commit order. CURRENT_TIMESTAMP is the start time of a
  transaction, and the third one started first: it waited for the row lock while the
  other two committed.
\<close>

definition skew_scans :: "(timestamp \<times> user \<times> body) list" where
  "skew_scans =
     [(5, demo_flo, status_body ''Picked from Production''),
      (7, demo_flo, status_body ''In Transit to Warehouse''),
      (3, demo_flo, status_body ''At Warehouse'')]"

definition skew_db :: db where
  "skew_db = run plain_lib demo_db1
     [Scan 5 demo_flo ''PLT001'' (status_body ''Picked from Production''),
      Scan 7 demo_flo ''PLT001'' (status_body ''In Transit to Warehouse''),
      Scan 3 demo_flo ''PLT001'' (status_body ''At Warehouse'')]"

definition skew_history :: "scan list" where
  "skew_history =
     (case select_scans plain_lib (JStr ''PLT001'') skew_db of None \<Rightarrow> [] | Some h \<Rightarrow> h)"

text \<open>The same three scans with start times in commit order.\<close>

definition ordered_scans :: "(timestamp \<times> user \<times> body) list" where
  "ordered_scans =
     [(5, demo_flo, status_body ''Picked from Production''),
      (7, demo_flo, status_body ''In Transit to Warehouse''),
      (9, demo_flo, status_body ''At Warehouse'')]"

definition ordered_db :: db where
  "ordered_db = run plain_lib demo_db1
     [Scan 5 demo_flo ''PLT001'' (status_body ''Picked from Production''),
      Scan 7 demo_flo ''PLT001'' (status_body ''In Transit to Warehouse''),
      Scan 9 demo_flo ''PLT001'' (status_body ''At Warehouse'')]"

section \<open>Facts about the statements\<close>

subsection \<open>Column input\<close>

lemma valid_status_length: "s \<in> set validStatuses \<Longrightarrow> length s \<le> 50"
  by (auto simp: validStatuses_def)

lemma valid_status_nul_free: "s \<in> set validStatuses \<Longrightarrow> nul_free s"
  by (auto simp: validStatuses_def nul_free_def)

lemma varchar_in_fits:
  "length s \<le> n \<Longrightarrow> nul_free s \<Longrightarrow> varchar_in n (Some s) = Some (Some s)"
  by (simp add: varchar_in_def)

lemma varchar_in_length: "varchar_in n t = Some (Some s) \<Longrightarrow> length s \<le> n"
  by (auto simp: varchar_in_def split: option.splits if_splits)

lemma varchar_in_same:
  "varchar_in n (Some s) = Some x \<Longrightarrow> length s \<le> n \<Longrightarrow> x = Some s"
  by (auto simp: varchar_in_def split: if_splits)

lemma varchar_in_nul_free: "varchar_in n (Some s) = Some x \<Longrightarrow> nul_free s"
  by (auto simp: varchar_in_def split: if_splits)

lemma varchar_in_nul: "\<not> nul_free s \<Longrightarrow> varchar_in n (Some s) = None"
  by (simp add: varchar_in_def)

subsection \<open>UPDATE\<close>

lemma update_rows_Cons_Some:
  "update_rows P f (p # ps) = Some (rs, ps') \<longleftrightarrow>
     (\<exists>rs0 ps0. update_rows P f ps = Some (rs0, ps0) \<and>
        (if P p then (\<exists>p'. f p = Some p' \<and> rs = p' # rs0 \<and> ps' = p' # ps0)
         else rs = rs0 \<and> ps' = p # ps0))"
  by (cases "update_rows P f ps"; cases "f p") auto

lemma update_rows_Some:
  "update_rows P f ps = Some (rs, ps') \<longleftrightarrow>
     list_all (\<lambda>p. P p \<longrightarrow> f p \<noteq> None) ps
     \<and> rs = map (\<lambda>p. the (f p)) (filter P ps)
     \<and> ps' = map (\<lambda>p. if P p then the (f p) else p) ps"
proof (induction ps arbitrary: rs ps')
  case Nil
  show ?case by auto
next
  case (Cons p ps)
  show ?case
    unfolding update_rows_Cons_Some Cons.IH
    by (cases "P p") auto
qed

lemma assign_pallet_id:
  "assign L now s = Some f \<Longrightarrow> f p = Some p' \<Longrightarrow> pallet_id p' = pallet_id p"
  by (cases "(L, now, s)" rule: assign.cases) (auto split: option.splits if_splits)

lemma assign_status_valid:
  "assign L now s = Some f \<Longrightarrow> f p = Some p' \<Longrightarrow> status p \<in> set validStatuses
     \<Longrightarrow> status p' \<in> set validStatuses"
  by (cases "(L, now, s)" rule: assign.cases) (auto split: option.splits if_splits)

lemma assign_status_same:
  "assign L now s = Some f \<Longrightarrow> f p = Some p' \<Longrightarrow> \<not> sets_status s \<Longrightarrow> status p' = status p"
  by (cases "(L, now, s)" rule: assign.cases) (auto split: option.splits if_splits)

lemma assigns_Cons_Some:
  "assigns L now (s # ss) = Some h \<longleftrightarrow>
     (\<exists>f g. assign L now s = Some f \<and> assigns L now ss = Some g \<and> h = (\<lambda>p. Option.bind (f p) g))"
  by (cases "assign L now s"; cases "assigns L now ss") auto

lemma assigns_relates:
  assumes "assigns L now ss = Some h" and "h p = Some p'"
    and refl: "\<And>p. R p p"
    and trans: "\<And>p q r. R p q \<Longrightarrow> R q r \<Longrightarrow> R p r"
    and one: "\<And>s f p p'. s \<in> set ss \<Longrightarrow> assign L now s = Some f \<Longrightarrow> f p = Some p' \<Longrightarrow> R p p'"
  shows "R p p'"
  using assms(1,2,5)
proof (induction ss arbitrary: h p p')
  case Nil
  then show ?case using refl by simp
next
  case (Cons s ss)
  from Cons.prems(1) obtain f g where f: "assign L now s = Some f"
    and g: "assigns L now ss = Some g" and h: "h = (\<lambda>p. Option.bind (f p) g)"
    unfolding assigns_Cons_Some by blast
  from Cons.prems(2) h obtain q where q: "f p = Some q" and q': "g q = Some p'"
    by (cases "f p") auto
  have "R p q" using Cons.prems(3)[OF _ f q] by simp
  moreover have "R q p'"
  proof (rule Cons.IH[OF g q'])
    fix s' f' p1 p2
    assume "s' \<in> set ss" "assign L now s' = Some f'" "f' p1 = Some p2"
    then show "R p1 p2" using Cons.prems(3)[of s' f' p1 p2] by simp
  qed
  ultimately show ?case using trans by blast
qed

lemma assigns_pallet_id:
  "assigns L now ss = Some f \<Longrightarrow> f p = Some p' \<Longrightarrow> pallet_id p' = pallet_id p"
  using assigns_relates[where R = "\<lambda>p p'. pallet_id p' = pallet_id p"
       and L = L and now = now and ss = ss and h = f and p = p and p' = p']
  by (auto dest: assign_pallet_id)

lemma assigns_status_valid:
  "assigns L now ss = Some f \<Longrightarrow> f p = Some p' \<Longrightarrow> status p \<in> set validStatuses
     \<Longrightarrow> status p' \<in> set validStatuses"
  using assigns_relates[where R = "\<lambda>p p'. status p \<in> set validStatuses \<longrightarrow> status p' \<in> set validStatuses"
       and L = L and now = now and ss = ss and h = f and p = p and p' = p']
  by (auto dest: assign_status_valid)

lemma assigns_status_same:
  "assigns L now ss = Some f \<Longrightarrow> f p = Some p' \<Longrightarrow> list_all (\<lambda>s. \<not> sets_status s) ss
     \<Longrightarrow> status p' = status p"
  using assigns_relates[where R = "\<lambda>p p'. status p' = status p"
       and L = L and now = now and ss = ss and h = f and p = p and p' = p']
  by (auto dest: assign_status_same simp: list_all_iff)

subsection \<open>The scan's two writes\<close>

lemma scan_assigns:
  assumes "newStatus b = JStr s" and "s \<in> set validStatuses"
  shows "assigns L now (scan_sets b) =
           (if truthy (warehouseLocation b)
            then map_option (\<lambda>x p. Some (p\<lparr>status := s, updated_at := now, warehouse_location := x\<rparr>))
                   (varchar_in 50 (prepareValue L (warehouseLocation b)))
            else Some (\<lambda>p. Some (p\<lparr>status := s, updated_at := now\<rparr>)))"
  using assms
  by (cases "varchar_in 50 (prepareValue L (warehouseLocation b))")
     (simp_all add: scan_sets_def varchar_in_fits valid_status_length valid_status_nul_free)

lemma truthy_prepareValue: "truthy v \<Longrightarrow> prepareValue L v \<noteq> None"
  by (cases v) auto

lemma varchar_in_Some_not_Null: "t \<noteq> None \<Longrightarrow> varchar_in n t = Some x \<Longrightarrow> x \<noteq> None"
  by (auto simp: varchar_in_def split: option.splits if_splits)

lemma update_rows_total:
  "update_rows P (\<lambda>p. Some (h p)) ps =
     Some (map h (filter P ps), map (\<lambda>p. if P p then h p else p) ps)"
  by (simp add: update_rows_Some list_all_iff)

lemma stored_location_unique:
  "stored_location L b loc \<Longrightarrow> stored_location L b loc' \<Longrightarrow> loc = loc'"
  by (auto simp: stored_location_def split: if_splits)

lemma update_pallets_scan_nul:
  "\<not> nul_free pid \<Longrightarrow> update_pallets L now sets (JStr pid) d = None"
  by (cases "assigns L now sets") (simp_all add: update_pallets_def)

lemma update_pallets_scan_None:
  assumes "newStatus b = JStr s" and "s \<in> set validStatuses" and nf: "nul_free pid"
  shows "update_pallets L now (scan_sets b) (JStr pid) d = None \<longleftrightarrow>
           (\<forall>loc. \<not> stored_location L b loc)"
proof (cases "truthy (warehouseLocation b)")
  case True
  show ?thesis
  proof (cases "varchar_in 50 (prepareValue L (warehouseLocation b))")
    case None
    with True show ?thesis
      by (simp add: update_pallets_def scan_assigns[OF assms(1,2)] stored_location_def)
  next
    case (Some x)
    from truthy_prepareValue[OF True] Some have "x \<noteq> None"
      by (rule varchar_in_Some_not_Null)
    with True Some nf show ?thesis
      by (auto simp: update_pallets_def scan_assigns[OF assms(1,2)] stored_location_def
          update_rows_total)
  qed
next
  case False
  with nf show ?thesis
    by (simp add: update_pallets_def scan_assigns[OF assms(1,2)] stored_location_def
        update_rows_total)
qed

lemma update_pallets_scan_Some:
  assumes "newStatus b = JStr s" and "s \<in> set validStatuses" and "stored_location L b loc"
    and nf: "nul_free pid"
  shows "update_pallets L now (scan_sets b) (JStr pid) d =
           Some (map (scan_write s now loc) (filter (\<lambda>p. pallet_id p = pid) (pallets d)),
                 d\<lparr>pallets := map (\<lambda>p. if pallet_id p = pid then scan_write s now loc p else p)
                                (pallets d)\<rparr>)"
proof (cases "truthy (warehouseLocation b)")
  case True
  with assms(3) obtain t where loc: "loc = Some t"
    and t: "varchar_in 50 (prepareValue L (warehouseLocation b)) = Some (Some t)"
    by (auto simp: stored_location_def)
  have w: "scan_write s now (Some t) = (\<lambda>p. p\<lparr>status := s, updated_at := now, warehouse_location := Some t\<rparr>)"
    by (rule ext) (simp add: scan_write_def)
  show ?thesis
    using True t nf
    by (simp add: update_pallets_def scan_assigns[OF assms(1,2)] update_rows_total loc w)
next
  case False
  with assms(3) have loc: "loc = None" by (simp add: stored_location_def)
  have w: "scan_write s now None = (\<lambda>p. p\<lparr>status := s, updated_at := now\<rparr>)"
    by (rule ext) (simp add: scan_write_def)
  show ?thesis
    using False nf
    by (simp add: update_pallets_def scan_assigns[OF assms(1,2)] update_rows_total loc w)
qed

lemma insert_scan_Some:
  "insert_scan L now v1 v2 v3 v4 v5 v6 v7 v8 v9 d = Some d' \<longleftrightarrow>
     (\<exists>pid fid fname prev new loc lat lon note.
        not_null (varchar_in 50 (prepareValue L v1)) = Some pid
      \<and> not_null (varchar_in 50 (prepareValue L v2)) = Some fid
      \<and> not_null (varchar_in 100 (prepareValue L v3)) = Some fname
      \<and> varchar_in 50 (prepareValue L v4) = Some prev
      \<and> not_null (varchar_in 50 (prepareValue L v5)) = Some new
      \<and> varchar_in 50 (prepareValue L v6) = Some loc
      \<and> decimal_in L 10 8 (prepareValue L v7) = Some lat
      \<and> decimal_in L 11 8 (prepareValue L v8) = Some lon
      \<and> text_in (prepareValue L v9) = Some note
      \<and> pid \<in> set (map pallet_id (pallets d))
      \<and> Some fid \<in> set (map flo_id (users d))
      \<and> d' = d\<lparr>pallet_scans := pallet_scans d @
                 [\<lparr> scan_pallet_id = pid, scan_flo_id = fid, flo_name = fname,
                    previous_status = prev, new_status = new, scan_location = loc,
                    latitude = lat, longitude = lon, notes_col = note,
                    scanned_at = now \<rparr>]\<rparr>)"
  unfolding insert_scan_def bind_eq_Some_conv
  by (simp only: if_split_eq1 option.simps simp_thms) blast

lemma insert_scan_row:
  assumes "insert_scan L now v1 v2 v3 v4 v5 v6 v7 v8 v9 d = Some d'"
  shows "\<exists>a. d' = d\<lparr>pallet_scans := pallet_scans d @ [a]\<rparr>
      \<and> not_null (varchar_in 50 (prepareValue L v1)) = Some (scan_pallet_id a)
      \<and> not_null (varchar_in 50 (prepareValue L v2)) = Some (scan_flo_id a)
      \<and> varchar_in 50 (prepareValue L v4) = Some (previous_status a)
      \<and> not_null (varchar_in 50 (prepareValue L v5)) = Some (new_status a)
      \<and> varchar_in 50 (prepareValue L v6) = Some (scan_location a)
      \<and> scan_pallet_id a \<in> set (map pallet_id (pallets d))
      \<and> Some (scan_flo_id a) \<in> set (map flo_id (users d))
      \<and> scanned_at a = now"
proof -
  from assms[unfolded insert_scan_Some]
  obtain pid fid fname prev nw loc lat lon nt where
      h: "not_null (varchar_in 50 (prepareValue L v1)) = Some pid"
         "not_null (varchar_in 50 (prepareValue L v2)) = Some fid"
         "varchar_in 50 (prepareValue L v4) = Some prev"
         "not_null (varchar_in 50 (prepareValue L v5)) = Some nw"
         "varchar_in 50 (prepareValue L v6) = Some loc"
         "pid \<in> set (map pallet_id (pallets d))"
         "Some fid \<in> set (map flo_id (users d))"
     and d': "d' = d\<lparr>pallet_scans := pallet_scans d @
                 [\<lparr> scan_pallet_id = pid, scan_flo_id = fid, flo_name = fname,
                    previous_status = prev, new_status = nw, scan_location = loc,
                    latitude = lat, longitude = lon, notes_col = nt,
                    scanned_at = now \<rparr>]\<rparr>"
    by (elim exE conjE)
  show ?thesis
    using h d'
    by (intro exI[of _ "\<lparr> scan_pallet_id = pid, scan_flo_id = fid, flo_name = fname,
                    previous_status = prev, new_status = nw, scan_location = loc,
                    latitude = lat, longitude = lon, notes_col = nt,
                    scanned_at = now \<rparr>"])
       simp
qed

subsection \<open>The scan route\<close>

lemma select_pallets_JStr:
  "select_pallets L (JStr pid) d =
     (if nul_free pid then Some (filter (\<lambda>p. pallet_id p = pid) (pallets d)) else None)"
  by (simp add: select_pallets_def)

lemma select_pallets_JStr_Some:
  "select_pallets L (JStr pid) d = Some rows
     \<Longrightarrow> nul_free pid \<and> rows = filter (\<lambda>p. pallet_id p = pid) (pallets d)"
  by (auto simp: select_pallets_JStr split: if_splits)

lemma map_pallet_id_scan_write:
  "map pallet_id (map (\<lambda>p. if pallet_id p = pid then scan_write s now loc p else p) ps)
     = map pallet_id ps"
  by (induction ps) (auto simp: scan_write_def split: option.splits)

lemma scan_pallet_outcome:
  assumes ns: "newStatus b = JStr s" and v: "s \<in> set validStatuses"
    and sel: "select_pallets L (JStr pid) d = Some (p0 # rest)"
  shows "scan_pallet L now u pid b d = (Failure 500 ''Failed to scan pallet'', d) \<or>
     (\<exists>loc a. stored_location L b loc \<and>
        scan_pallet L now u pid b d =
          (Success 200 (Some (scan_write s now loc p0), status p0, JStr s),
           d\<lparr>pallets := map (\<lambda>p. if pallet_id p = pid then scan_write s now loc p else p)
                          (pallets d),
             pallet_scans := pallet_scans d @ [a]\<rparr>)
        \<and> new_status a = s \<and> scanned_at a = now
        \<and> varchar_in 50 (Some pid) = Some (Some (scan_pallet_id a))
        \<and> varchar_in 50 (Some (status p0)) = Some (previous_status a)
        \<and> scan_pallet_id a \<in> set (map pallet_id (pallets d))
        \<and> Some (scan_flo_id a) \<in> set (map flo_id (users d)))"
proof -
  have inc: "js_includes validStatuses (newStatus b)" using ns v by simp
  from select_pallets_JStr_Some[OF sel]
  have nf: "nul_free pid" and flt: "filter (\<lambda>p. pallet_id p = pid) (pallets d) = p0 # rest"
    by simp_all
  let ?upd = "update_pallets L now (scan_sets b) (JStr pid) d"
  show ?thesis
  proof (cases "\<exists>loc. stored_location L b loc")
    case False
    then have "?upd = None" using update_pallets_scan_None[OF ns v nf] by simp
    then have "scan_pallet L now u pid b d = (Failure 500 ''Failed to scan pallet'', d)"
      using inc sel by (simp add: scan_pallet_def)
    then show ?thesis ..
  next
    case True
    then obtain loc where loc: "stored_location L b loc" ..
    let ?ps1 = "map (\<lambda>p. if pallet_id p = pid then scan_write s now loc p else p) (pallets d)"
    let ?tx1 = "d\<lparr>pallets := ?ps1\<rparr>"
    have upd: "?upd = Some (scan_write s now loc p0 # map (scan_write s now loc) rest, ?tx1)"
      using update_pallets_scan_Some[OF ns v loc nf, of now d] flt
      by simp
    let ?ins = "insert_scan L now (JStr pid) (actor_id u) (JStr (full_name u))
                  (JStr (status p0)) (newStatus b) (warehouseLocation b)
                  (scanLatitude b) (scanLongitude b) (scanNotes b) ?tx1"
    show ?thesis
    proof (cases ?ins)
      case None
      then have "scan_pallet L now u pid b d = (Failure 500 ''Failed to scan pallet'', d)"
        using inc sel upd by (simp add: scan_pallet_def)
      then show ?thesis ..
    next
      case (Some tx2)
      from insert_scan_row[OF Some]
      obtain a where tx2: "tx2 = ?tx1\<lparr>pallet_scans := pallet_scans ?tx1 @ [a]\<rparr>"
        and a1: "not_null (varchar_in 50 (prepareValue L (JStr pid))) = Some (scan_pallet_id a)"
        and a4: "varchar_in 50 (prepareValue L (JStr (status p0))) = Some (previous_status a)"
        and a5: "not_null (varchar_in 50 (prepareValue L (newStatus b))) = Some (new_status a)"
        and a10: "scan_pallet_id a \<in> set (map pallet_id (pallets ?tx1))"
        and a11: "Some (scan_flo_id a) \<in> set (map flo_id (users ?tx1))"
        and a12: "scanned_at a = now"
        by (elim exE conjE)
      have res: "scan_pallet L now u pid b d =
          (Success 200 (Some (scan_write s now loc p0), status p0, JStr s), tx2)"
        using inc sel upd Some ns by (simp add: scan_pallet_def)
      have "new_status a = s"
        using a5 ns
        by (simp add: varchar_in_fits[OF valid_status_length[OF v] valid_status_nul_free[OF v]]
              not_null_def)
      moreover have "varchar_in 50 (Some pid) = Some (Some (scan_pallet_id a))"
        using a1 by (cases "varchar_in 50 (Some pid)") (simp_all add: not_null_def)
      moreover have "varchar_in 50 (Some (status p0)) = Some (previous_status a)"
        using a4 by simp
      moreover have "scan_pallet_id a \<in> set (map pallet_id (pallets d))"
      proof -
        have "pallets ?tx1 = ?ps1" by simp
        with a10 show ?thesis by (simp only: map_pallet_id_scan_write)
      qed
      moreover have "Some (scan_flo_id a) \<in> set (map flo_id (users d))"
        using a11 by simp
      moreover have "tx2 = d\<lparr>pallets := ?ps1, pallet_scans := pallet_scans d @ [a]\<rparr>"
        using tx2 by simp
      ultimately show ?thesis using loc res a12 by blast
    qed
  qed
qed

lemma js_includes_JStr: "js_includes xs v \<Longrightarrow> \<exists>s. v = JStr s \<and> s \<in> set xs"
  by (cases v) auto

lemma scan_pallet_invalid:
  "\<not> js_includes validStatuses (newStatus b)
     \<Longrightarrow> scan_pallet L now u pid b d = (Failure 400 ''Invalid status'', d)"
  by (simp add: scan_pallet_def)

lemma scan_pallet_missing:
  "js_includes validStatuses (newStatus b) \<Longrightarrow> select_pallets L (JStr pid) d = Some []
     \<Longrightarrow> scan_pallet L now u pid b d = (Failure 404 ''Pallet not found'', d)"
  by (simp add: scan_pallet_def)

lemma scan_pallet_select_fails:
  "js_includes validStatuses (newStatus b) \<Longrightarrow> select_pallets L (JStr pid) d = None
     \<Longrightarrow> scan_pallet L now u pid b d = (Failure 500 ''Failed to scan pallet'', d)"
  by (simp add: scan_pallet_def)

lemma find_filter: "find P xs = (case filter P xs of [] \<Rightarrow> None | x # _ \<Rightarrow> Some x)"
  by (induction xs) auto

lemma the_pallet_select:
  "select_pallets L (JStr pid) d = Some rows
     \<Longrightarrow> the_pallet pid d = (case rows of [] \<Rightarrow> None | p # _ \<Rightarrow> Some p)"
  by (auto simp: the_pallet_def find_filter dest: select_pallets_JStr_Some)

lemma the_pallet_in: "the_pallet pid d = Some p \<Longrightarrow> p \<in> set (pallets d) \<and> pallet_id p = pid"
  unfolding the_pallet_def by (auto simp: find_Some_iff)

lemma scan_pallet_Success:
  assumes "scan_pallet L now u pid b d = (Success c x, d')"
  shows "\<exists>s p0 loc a.
           newStatus b = JStr s \<and> s \<in> set validStatuses \<and> the_pallet pid d = Some p0
         \<and> stored_location L b loc \<and> c = 200
         \<and> x = (Some (scan_write s now loc p0), status p0, JStr s)
         \<and> d' = d\<lparr>pallets := map (\<lambda>p. if pallet_id p = pid then scan_write s now loc p else p)
                                (pallets d),
                   pallet_scans := pallet_scans d @ [a]\<rparr>
         \<and> new_status a = s \<and> scanned_at a = now
         \<and> varchar_in 50 (Some pid) = Some (Some (scan_pallet_id a))
         \<and> varchar_in 50 (Some (status p0)) = Some (previous_status a)
         \<and> scan_pallet_id a \<in> set (map pallet_id (pallets d))
         \<and> Some (scan_flo_id a) \<in> set (map flo_id (users d))
         \<and> nul_free pid"
proof -
  have inc: "js_includes validStatuses (newStatus b)"
    using assms scan_pallet_invalid[of b L now u pid d] by (cases "js_includes validStatuses (newStatus b)") auto
  then obtain s where s: "newStatus b = JStr s" "s \<in> set validStatuses"
    using js_includes_JStr by blast
  obtain rows where rows: "select_pallets L (JStr pid) d = Some rows"
    using assms scan_pallet_select_fails[OF inc, of L pid d now u]
    by (cases "select_pallets L (JStr pid) d") auto
  obtain p0 rest where sel: "select_pallets L (JStr pid) d = Some (p0 # rest)"
    using assms scan_pallet_missing[OF inc, of L pid d now u] rows
    by (cases rows) auto
  have tp: "the_pallet pid d = Some p0"
    using the_pallet_select[OF sel] by simp
  have nf: "nul_free pid"
    using select_pallets_JStr_Some[OF sel] by simp
  from scan_pallet_outcome[OF s sel, of now u] assms s tp nf
  show ?thesis by auto
qed

subsection \<open>What an UPDATE leaves alone\<close>

lemma update_rows_relates:
  assumes "update_rows P f ps = Some (rs, ps')"
    and "\<And>p p'. f p = Some p' \<Longrightarrow> g p' = g p"
  shows "map g ps' = map g ps"
proof -
  from assms(1) have ok: "list_all (\<lambda>p. P p \<longrightarrow> f p \<noteq> None) ps"
    and ps': "ps' = map (\<lambda>p. if P p then the (f p) else p) ps"
    unfolding update_rows_Some by auto
  have "\<forall>p\<in>set ps. g (if P p then the (f p) else p) = g p"
    using ok assms(2) by (auto simp: list_all_iff)
  then show ?thesis unfolding ps' by simp
qed

lemma update_rows_keeps:
  assumes "update_rows P f ps = Some (rs, ps')"
    and "\<And>p p'. f p = Some p' \<Longrightarrow> Q p \<Longrightarrow> Q p'"
    and "list_all Q ps"
  shows "list_all Q ps'"
proof -
  from assms(1) have ok: "list_all (\<lambda>p. P p \<longrightarrow> f p \<noteq> None) ps"
    and ps': "ps' = map (\<lambda>p. if P p then the (f p) else p) ps"
    unfolding update_rows_Some by auto
  have "\<forall>p\<in>set ps. Q (if P p then the (f p) else p)"
    using ok assms(2) assms(3) by (auto simp: list_all_iff)
  then show ?thesis unfolding ps' list.pred_map by (simp add: list_all_iff)
qed

lemma update_pallets_Some:
  assumes "update_pallets L now sets key d = Some (rs, d')"
  shows "\<exists>f ps'. assigns L now sets = Some f \<and> d' = d\<lparr>pallets := ps'\<rparr>
           \<and> ((prepareValue L key = None \<and> ps' = pallets d \<and> rs = [])
              \<or> (\<exists>k. prepareValue L key = Some k
                     \<and> update_rows (\<lambda>p. pallet_id p = k) f (pallets d) = Some (rs, ps')))"
proof -
  from assms obtain f where f: "assigns L now sets = Some f"
    by (cases "assigns L now sets") (auto simp: update_pallets_def)
  show ?thesis
  proof (cases "prepareValue L key")
    case None
    with assms f have "d' = d\<lparr>pallets := pallets d\<rparr>" "rs = []"
      by (simp_all add: update_pallets_def)
    with f None show ?thesis by blast
  next
    case (Some k)
    with assms f obtain ps' where "update_rows (\<lambda>p. pallet_id p = k) f (pallets d) = Some (rs, ps')"
      and "d' = d\<lparr>pallets := ps'\<rparr>"
      by (cases "update_rows (\<lambda>p. pallet_id p = k) f (pallets d)")
         (auto simp: update_pallets_def split: if_splits)
    with f Some show ?thesis by blast
  qed
qed

lemma update_pallets_other_tables:
  "update_pallets L now sets key d = Some (rs, d')
     \<Longrightarrow> users d' = users d \<and> pallet_scans d' = pallet_scans d"
  by (drule update_pallets_Some) auto

lemma update_pallets_ids:
  assumes "update_pallets L now sets key d = Some (rs, d')"
  shows "map pallet_id (pallets d') = map pallet_id (pallets d)"
proof -
  from update_pallets_Some[OF assms] obtain f ps' where f: "assigns L now sets = Some f"
    and d': "d' = d\<lparr>pallets := ps'\<rparr>"
    and c: "(prepareValue L key = None \<and> ps' = pallets d \<and> rs = [])
              \<or> (\<exists>k. prepareValue L key = Some k
                     \<and> update_rows (\<lambda>p. pallet_id p = k) f (pallets d) = Some (rs, ps'))"
    by blast
  from c have "map pallet_id ps' = map pallet_id (pallets d)"
    using update_rows_relates[where g = pallet_id and f = f] assigns_pallet_id[OF f]
    by blast
  then show ?thesis by (simp add: d')
qed

lemma update_pallets_status_same:
  assumes "update_pallets L now sets key d = Some (rs, d')"
    and "list_all (\<lambda>s. \<not> sets_status s) sets"
  shows "map status (pallets d') = map status (pallets d)"
proof -
  from update_pallets_Some[OF assms(1)] obtain f ps' where f: "assigns L now sets = Some f"
    and d': "d' = d\<lparr>pallets := ps'\<rparr>"
    and c: "(prepareValue L key = None \<and> ps' = pallets d \<and> rs = [])
              \<or> (\<exists>k. prepareValue L key = Some k
                     \<and> update_rows (\<lambda>p. pallet_id p = k) f (pallets d) = Some (rs, ps'))"
    by blast
  from c have "map status ps' = map status (pallets d)"
    using update_rows_relates[where g = status and f = f] assigns_status_same[OF f _ assms(2)]
    by blast
  then show ?thesis by (simp add: d')
qed

lemma update_pallets_status_valid:
  assumes "update_pallets L now sets key d = Some (rs, d')"
    and "list_all (\<lambda>p. status p \<in> set validStatuses) (pallets d)"
  shows "list_all (\<lambda>p. status p \<in> set validStatuses) (pallets d')"
proof -
  from update_pallets_Some[OF assms(1)] obtain f ps' where f: "assigns L now sets = Some f"
    and d': "d' = d\<lparr>pallets := ps'\<rparr>"
    and c: "(prepareValue L key = None \<and> ps' = pallets d \<and> rs = [])
              \<or> (\<exists>k. prepareValue L key = Some k
                     \<and> update_rows (\<lambda>p. pallet_id p = k) f (pallets d) = Some (rs, ps'))"
    by blast
  from c have "list_all (\<lambda>p. status p \<in> set validStatuses) ps'"
    using update_rows_keeps[where Q = "\<lambda>p. status p \<in> set validStatuses" and f = f, OF _ _ assms(2)]
      assigns_status_valid[OF f] assms(2)
    by blast
  then show ?thesis by (simp add: d')
qed

subsection \<open>The create route\<close>

lemma insert_pallet_Some:
  "insert_pallet L now v1 v2 v3 v4 v5 v6 v7 v8 v9 v10 d = Some (rows, d') \<longleftrightarrow>
     (\<exists>pid code name qty unit weight pdate edate loc dest.
        not_null (varchar_in 50 (prepareValue L v1)) = Some pid
      \<and> not_null (varchar_in 50 (prepareValue L v2)) = Some code
      \<and> not_null (varchar_in 100 (prepareValue L v3)) = Some name
      \<and> not_null (integer_in L (prepareValue L v4)) = Some qty
      \<and> varchar_in 50 (prepareValue L v5) = Some unit
      \<and> decimal_in L 10 2 (prepareValue L v6) = Some weight
      \<and> date_col_in L (prepareValue L v7) = Some pdate
      \<and> date_col_in L (prepareValue L v8) = Some edate
      \<and> varchar_in 50 (prepareValue L v9) = Some loc
      \<and> varchar_in 100 (prepareValue L v10) = Some dest
      \<and> pid \<notin> set (map pallet_id (pallets d))
      \<and> rows = [\<lparr> pallet_id = pid, item_code = code, item_name = name,
                     item_quantity = qty, unit_no = unit, weight_kg = weight,
                     production_date = pdate, expiry_date = edate,
                     status = ''At Production'', warehouse_location = loc,
                     destination_col = dest, qr_code_url = None,
                     created_at = now, updated_at = now \<rparr>]
      \<and> d' = d\<lparr>pallets := pallets d @ rows\<rparr>)"
  unfolding insert_pallet_def bind_eq_Some_conv Let_def
  by (simp only: if_split_eq1 option.simps simp_thms prod.inject) blast

lemma insert_pallet_row:
  assumes "insert_pallet L now v1 v2 v3 v4 v5 v6 v7 v8 v9 v10 d = Some (rows, d')"
  shows "\<exists>row. rows = [row] \<and> d' = d\<lparr>pallets := pallets d @ [row]\<rparr>
      \<and> not_null (varchar_in 50 (prepareValue L v1)) = Some (pallet_id row)
      \<and> pallet_id row \<notin> set (map pallet_id (pallets d))
      \<and> status row = ''At Production''
      \<and> varchar_in 50 (prepareValue L v9) = Some (warehouse_location row)
      \<and> qr_code_url row = None \<and> created_at row = now \<and> updated_at row = now"
proof -
  from assms[unfolded insert_pallet_Some]
  obtain pid code name qty unit weight pdate edate loc dest where
      h: "not_null (varchar_in 50 (prepareValue L v1)) = Some pid"
         "varchar_in 50 (prepareValue L v9) = Some loc"
         "pid \<notin> set (map pallet_id (pallets d))"
     and rows: "rows = [\<lparr> pallet_id = pid, item_code = code, item_name = name,
                     item_quantity = qty, unit_no = unit, weight_kg = weight,
                     production_date = pdate, expiry_date = edate,
                     status = ''At Production'', warehouse_location = loc,
                     destination_col = dest, qr_code_url = None,
                     created_at = now, updated_at = now \<rparr>]"
     and d': "d' = d\<lparr>pallets := pallets d @ rows\<rparr>"
    by (elim exE conjE)
  show ?thesis
    using h d' rows
    by (intro exI[of _ "\<lparr> pallet_id = pid, item_code = code, item_name = name,
                     item_quantity = qty, unit_no = unit, weight_kg = weight,
                     production_date = pdate, expiry_date = edate,
                     status = ''At Production'', warehouse_location = loc,
                     destination_col = dest, qr_code_url = None,
                     created_at = now, updated_at = now \<rparr>"])
       simp
qed

lemma not_null_varchar_length:
  "not_null (varchar_in n t) = Some s \<Longrightarrow> length s \<le> n"
  by (cases "varchar_in n t") (auto simp: not_null_def dest: varchar_in_length)

lemma not_null_varchar_nul_free:
  assumes "not_null (varchar_in n t) = Some s"
  shows "nul_free s"
proof (cases t)
  case None
  with assms show ?thesis by (simp add: varchar_in_def not_null_def)
next
  case (Some x)
  with assms have "nul_free x" and "s = x \<or> s = take n x"
    by (auto simp: varchar_in_def not_null_def split: if_splits)
  then show ?thesis
    by (auto simp: nul_free_def dest: in_set_takeD)
qed

lemma create_pallet_Failure:
  "create_pallet L now b d = (Failure c m, d') \<Longrightarrow> d' = d"
  by (auto simp: create_pallet_def split: if_splits option.splits)

lemma create_pallet_Success:
  assumes "create_pallet L now b d = (Success c x, d')"
  shows "\<exists>row. c = 201 \<and> x = Some row \<and> d' = d\<lparr>pallets := pallets d @ [row]\<rparr>
      \<and> truthy (palletId b) \<and> truthy (itemCode b) \<and> truthy (itemName b)
      \<and> truthy (itemQuantity b)
      \<and> select_pallets L (palletId b) d = Some []
      \<and> not_null (varchar_in 50 (prepareValue L (palletId b))) = Some (pallet_id row)
      \<and> pallet_id row \<notin> set (map pallet_id (pallets d))
      \<and> length (pallet_id row) \<le> 50 \<and> nul_free (pallet_id row)
      \<and> status row = ''At Production''
      \<and> created_at row = now \<and> updated_at row = now"
proof -
  let ?ins = "insert_pallet L now (palletId b) (itemCode b) (itemName b) (itemQuantity b)
                (unitNo b) (weightKg b) (productionDate b) (expiryDate b)
                (warehouseLocation b) (destination b) d"
  from assms have t: "truthy (palletId b)" "truthy (itemCode b)" "truthy (itemName b)"
      "truthy (itemQuantity b)" and sel: "select_pallets L (palletId b) d = Some []"
    by (auto simp: create_pallet_def split: if_splits option.splits)
  with assms obtain rows where ins: "?ins = Some (rows, d')"
    and x: "x = (case rows of [] \<Rightarrow> None | r # _ \<Rightarrow> Some r)" and c: "c = 201"
    by (cases ?ins) (auto simp: create_pallet_def)
  from insert_pallet_row[OF ins] obtain row where
    r: "rows = [row]" "d' = d\<lparr>pallets := pallets d @ [row]\<rparr>"
       "not_null (varchar_in 50 (prepareValue L (palletId b))) = Some (pallet_id row)"
       "pallet_id row \<notin> set (map pallet_id (pallets d))"
       "status row = ''At Production''" "created_at row = now" "updated_at row = now"
    by (elim exE conjE)
  from r(3) have "length (pallet_id row) \<le> 50" by (rule not_null_varchar_length)
  moreover from r(3) have "nul_free (pallet_id row)" by (rule not_null_varchar_nul_free)
  ultimately show ?thesis using t sel x c r by simp
qed

subsection \<open>The schema's guarantees are kept\<close>

lemma schema_ok_alt:
  "schema_ok d \<longleftrightarrow>
     distinct (map pallet_id (pallets d))
   \<and> list_all (\<lambda>i. length i \<le> 50) (map pallet_id (pallets d))
   \<and> list_all (\<lambda>p. status p \<in> set validStatuses) (pallets d)
   \<and> list_all (\<lambda>s. scan_pallet_id s \<in> set (map pallet_id (pallets d))
                   \<and> Some (scan_flo_id s) \<in> set (map flo_id (users d))) (pallet_scans d)"
  by (auto simp: schema_ok_def list_all_iff)

lemma schema_ok_update_pallets:
  assumes "update_pallets L now sets key d = Some (rs, d')" and "schema_ok d"
  shows "schema_ok d'"
  using update_pallets_other_tables[OF assms(1)] update_pallets_ids[OF assms(1)]
    update_pallets_status_valid[OF assms(1)] assms(2)
  unfolding schema_ok_alt by simp

lemma scan_pallet_Failure:
  assumes "scan_pallet L now u pid b d = (Failure c m, d')"
  shows "d' = d"
proof (cases "js_includes validStatuses (newStatus b)")
  case False
  with assms show ?thesis by (simp add: scan_pallet_invalid)
next
  case True
  then obtain s where s: "newStatus b = JStr s" "s \<in> set validStatuses"
    using js_includes_JStr by blast
  show ?thesis
  proof (cases "select_pallets L (JStr pid) d")
    case None
    with assms True show ?thesis by (simp add: scan_pallet_select_fails)
  next
    case (Some rows)
    show ?thesis
    proof (cases rows)
      case Nil
      with Some assms True show ?thesis by (simp add: scan_pallet_missing)
    next
      case (Cons p0 rest)
      from scan_pallet_outcome[OF s Some[unfolded Cons], of now u] assms show ?thesis by auto
    qed
  qed
qed

lemma list_all_scan_write:
  "list_all (\<lambda>p. status p \<in> set validStatuses) ps \<Longrightarrow> s \<in> set validStatuses
     \<Longrightarrow> list_all (\<lambda>p. status p \<in> set validStatuses)
           (map (\<lambda>p. if pallet_id p = pid then scan_write s now loc p else p) ps)"
  by (induction ps) (auto simp: scan_write_def split: option.splits)

lemma schema_ok_scan_pallet:
  assumes "schema_ok d"
  shows "schema_ok (snd (scan_pallet L now u pid b d))"
proof (cases "scan_pallet L now u pid b d")
  case (Pair r d')
  show ?thesis
  proof (cases r)
    case (Failure c m)
    with Pair scan_pallet_Failure[of L now u pid b d c m d'] assms show ?thesis by simp
  next
    case (Success c x)
    from scan_pallet_Success[OF Pair[unfolded Success]]
    obtain s loc a where v: "s \<in> set validStatuses"
      and d': "d' = d\<lparr>pallets := map (\<lambda>p. if pallet_id p = pid then scan_write s now loc p else p)
                                (pallets d),
                   pallet_scans := pallet_scans d @ [a]\<rparr>"
      and fk: "scan_pallet_id a \<in> set (map pallet_id (pallets d))"
              "Some (scan_flo_id a) \<in> set (map flo_id (users d))"
      by blast
    have ps: "pallets d' = map (\<lambda>p. if pallet_id p = pid then scan_write s now loc p else p)
                             (pallets d)"
      and us: "users d' = users d" and sc: "pallet_scans d' = pallet_scans d @ [a]"
      by (simp_all add: d')
    have ids: "map pallet_id (pallets d') = map pallet_id (pallets d)"
      by (simp only: ps map_pallet_id_scan_write)
    have st: "list_all (\<lambda>p. status p \<in> set validStatuses) (pallets d')"
      using assms list_all_scan_write[OF _ v, of "pallets d" pid now loc]
      unfolding schema_ok_alt ps by simp
    have "schema_ok d'"
      using assms fk st unfolding schema_ok_alt ids us sc by simp
    with Pair show ?thesis by simp
  qed
qed

lemma schema_ok_create_pallet:
  assumes "schema_ok d"
  shows "schema_ok (snd (create_pallet L now b d))"
proof (cases "create_pallet L now b d")
  case (Pair r d')
  show ?thesis
  proof (cases r)
    case (Failure c m)
    with Pair create_pallet_Failure[of L now b d c m d'] assms show ?thesis by simp
  next
    case (Success c x)
    from create_pallet_Success[OF Pair[unfolded Success]]
    obtain row where d': "d' = d\<lparr>pallets := pallets d @ [row]\<rparr>"
      and r: "pallet_id row \<notin> set (map pallet_id (pallets d))" "length (pallet_id row) \<le> 50"
         "status row = ''At Production''"
      by blast
    have "''At Production'' \<in> set validStatuses" by (simp add: validStatuses_def)
    then have "schema_ok d'"
      using assms r unfolding schema_ok_alt d'
      by (auto simp: list_all_iff)
    with Pair show ?thesis by simp
  qed
qed

lemma update_pallet_result:
  "snd (update_pallet L now pid b d) = d
   \<or> (\<exists>rs. update_pallets L now (update_fields b @ [SetUpdatedAt]) (JStr pid) d
             = Some (rs, snd (update_pallet L now pid b d)))"
  by (cases "update_pallets L now (update_fields b @ [SetUpdatedAt]) (JStr pid) d")
     (auto simp: update_pallet_def Let_def)

lemma schema_ok_update_pallet:
  "schema_ok d \<Longrightarrow> schema_ok (snd (update_pallet L now pid b d))"
  using update_pallet_result[of L now pid b d] schema_ok_update_pallets by metis

lemma schema_ok_set_qr_code_url:
  "schema_ok d \<Longrightarrow> schema_ok (set_qr_code_url L url key d)"
  by (cases "update_pallets L 0 [SetCol Col_qr_code_url url] key d")
     (auto simp: set_qr_code_url_def dest: schema_ok_update_pallets)

lemma delete_pallet_result:
  "snd (delete_pallet L pid d) =
     (if nul_free pid
      then d\<lparr>pallets := filter (\<lambda>p. pallet_id p \<noteq> pid) (pallets d),
             pallet_scans := filter (\<lambda>s. scan_pallet_id s \<noteq> pid) (pallet_scans d)\<rparr>
      else d)"
  by (simp add: delete_pallet_def delete_pallets_def)

lemma schema_ok_delete_pallet:
  assumes "schema_ok d"
  shows "schema_ok (snd (delete_pallet L pid d))"
proof (cases "nul_free pid")
  case True
  with assms show ?thesis
    unfolding delete_pallet_result schema_ok_alt
    by (auto simp: list_all_iff distinct_map_filter)
next
  case False
  with assms show ?thesis by (simp add: delete_pallet_result)
qed

lemma schema_ok_step: "schema_ok d \<Longrightarrow> schema_ok (step L d r)"
  by (cases r)
     (simp_all add: schema_ok_create_pallet schema_ok_scan_pallet schema_ok_update_pallet
        schema_ok_delete_pallet schema_ok_set_qr_code_url)

lemma schema_ok_run: "schema_ok d \<Longrightarrow> schema_ok (run L d rs)"
  unfolding run_def by (induction rs arbitrary: d) (simp_all add: schema_ok_step)

lemma the_pallet_Some_select:
  assumes "the_pallet pid d = Some p0" and "nul_free pid"
  shows "\<exists>rest. select_pallets L (JStr pid) d = Some (p0 # rest)"
proof -
  let ?rows = "filter (\<lambda>p. pallet_id p = pid) (pallets d)"
  have sel: "select_pallets L (JStr pid) d = Some ?rows"
    using assms(2) by (simp add: select_pallets_JStr)
  from the_pallet_select[OF sel] assms(1) show ?thesis
    unfolding sel by (cases ?rows) simp_all
qed

lemma the_pallet_None_select:
  assumes "the_pallet pid d = None" and "nul_free pid"
  shows "select_pallets L (JStr pid) d = Some []"
proof -
  let ?rows = "filter (\<lambda>p. pallet_id p = pid) (pallets d)"
  have sel: "select_pallets L (JStr pid) d = Some ?rows"
    using assms(2) by (simp add: select_pallets_JStr)
  from the_pallet_select[OF sel] assms(1) show ?thesis
    unfolding sel by (cases ?rows) simp_all
qed

lemma select_pallets_nul: "\<not> nul_free pid \<Longrightarrow> select_pallets L (JStr pid) d = None"
  by (simp add: select_pallets_JStr)

lemma the_pallet_after_scan:
  "the_pallet pid (d\<lparr>pallets := map (\<lambda>p. if pallet_id p = pid then scan_write s now loc p else p)
                                (pallets d),
                    pallet_scans := sc\<rparr>)
     = map_option (scan_write s now loc) (the_pallet pid d)"
proof -
  have "find (\<lambda>p. pallet_id p = pid)
          (map (\<lambda>p. if pallet_id p = pid then scan_write s now loc p else p) ps)
        = map_option (scan_write s now loc) (find (\<lambda>p. pallet_id p = pid) ps)" for ps
    by (induction ps) (auto simp: scan_write_def split: option.splits)
  then show ?thesis by (simp add: the_pallet_def)
qed

lemma status_scan_write: "status (scan_write s now loc p) = s"
  by (simp add: scan_write_def split: option.splits)

lemma schema_ok_the_pallet:
  assumes "schema_ok d" and "the_pallet pid d = Some p0"
  shows "length pid \<le> 50" and "status p0 \<in> set validStatuses"
  using assms the_pallet_in[OF assms(2)]
  by (auto simp: schema_ok_def list_all_iff)

lemma scan_pallet_Success_schema:
  assumes ok: "schema_ok d" and res: "scan_pallet L now u pid b d = (Success c x, d')"
  shows "\<exists>s p0 loc a.
           newStatus b = JStr s \<and> s \<in> set validStatuses \<and> the_pallet pid d = Some p0
         \<and> stored_location L b loc \<and> c = 200
         \<and> x = (Some (scan_write s now loc p0), status p0, JStr s)
         \<and> d' = d\<lparr>pallets := map (\<lambda>p. if pallet_id p = pid then scan_write s now loc p else p)
                                (pallets d),
                   pallet_scans := pallet_scans d @ [a]\<rparr>
         \<and> scan_pallet_id a = pid \<and> previous_status a = Some (status p0)
         \<and> new_status a = s \<and> scanned_at a = now"
proof -
  from scan_pallet_Success[OF res]
  obtain s p0 loc a where s: "newStatus b = JStr s" "s \<in> set validStatuses"
    and p0: "the_pallet pid d = Some p0" and loc: "stored_location L b loc" and c: "c = 200"
    and x: "x = (Some (scan_write s now loc p0), status p0, JStr s)"
    and d': "d' = d\<lparr>pallets := map (\<lambda>p. if pallet_id p = pid then scan_write s now loc p else p)
                                (pallets d),
                   pallet_scans := pallet_scans d @ [a]\<rparr>"
    and a: "new_status a = s" "scanned_at a = now"
      "varchar_in 50 (Some pid) = Some (Some (scan_pallet_id a))"
      "varchar_in 50 (Some (status p0)) = Some (previous_status a)"
    by blast
  from schema_ok_the_pallet[OF ok p0]
  have "length pid \<le> 50" "length (status p0) \<le> 50"
    using valid_status_length by auto
  with a(3,4) have "scan_pallet_id a = pid" "previous_status a = Some (status p0)"
    using varchar_in_same[of 50 pid "Some (scan_pallet_id a)"]
      varchar_in_same[of 50 "status p0" "previous_status a"]
    by auto
  with s p0 loc c x d' a(1,2) show ?thesis by blast
qed

subsection \<open>Requests other than scans\<close>

lemma list_all_optional: "list_all P (if c then [x] else []) = (c \<longrightarrow> P x)"
  by simp

lemma update_fields_no_status: "list_all (\<lambda>s. \<not> sets_status s) (update_fields b @ [SetUpdatedAt])"
  unfolding update_fields_def list_all_append list_all_optional
  by (simp split del: if_split)

lemma update_pallet_frame:
  "map status (pallets (snd (update_pallet L now pid b d))) = map status (pallets d)
   \<and> map pallet_id (pallets (snd (update_pallet L now pid b d))) = map pallet_id (pallets d)
   \<and> pallet_scans (snd (update_pallet L now pid b d)) = pallet_scans d
   \<and> users (snd (update_pallet L now pid b d)) = users d"
proof -
  let ?d' = "snd (update_pallet L now pid b d)"
  from update_pallet_result[of L now pid b d]
  consider "?d' = d"
    | rs where "update_pallets L now (update_fields b @ [SetUpdatedAt]) (JStr pid) d = Some (rs, ?d')"
    by blast
  then show ?thesis
  proof cases
    case 1
    then show ?thesis by simp
  next
    case 2
    from update_pallets_status_same[OF 2 update_fields_no_status]
      update_pallets_ids[OF 2] update_pallets_other_tables[OF 2]
    show ?thesis by simp
  qed
qed

lemma set_qr_code_url_frame:
  "map status (pallets (set_qr_code_url L url key d)) = map status (pallets d)
   \<and> map pallet_id (pallets (set_qr_code_url L url key d)) = map pallet_id (pallets d)
   \<and> pallet_scans (set_qr_code_url L url key d) = pallet_scans d"
proof (cases "update_pallets L 0 [SetCol Col_qr_code_url url] key d")
  case None
  then show ?thesis by (simp add: set_qr_code_url_def)
next
  case (Some a)
  obtain rs d' where a: "a = (rs, d')" by (cases a)
  have "list_all (\<lambda>s. \<not> sets_status s) [SetCol Col_qr_code_url url]" by simp
  from update_pallets_status_same[OF Some[unfolded a] this]
    update_pallets_ids[OF Some[unfolded a]] update_pallets_other_tables[OF Some[unfolded a]]
  show ?thesis using Some a by (simp add: set_qr_code_url_def)
qed

lemma find_status_same:
  assumes "map pallet_id ps' = map pallet_id ps" and "map status ps' = map status ps"
  shows "map_option status (find (\<lambda>p. pallet_id p = q) ps')
           = map_option status (find (\<lambda>p. pallet_id p = q) ps)"
  using assms
proof (induction ps arbitrary: ps')
  case Nil
  then show ?case by simp
next
  case (Cons p ps)
  then obtain p' ps'' where "ps' = p' # ps''" by (cases ps') auto
  with Cons show ?case by auto
qed

lemma find_append_Some: "find P xs = Some x \<Longrightarrow> find P (xs @ ys) = Some x"
  by (induction xs) auto

lemma find_filter_neq:
  "find (\<lambda>p. pallet_id p = q) (filter (\<lambda>p. pallet_id p \<noteq> k) ps) =
     (if q = k then None else find (\<lambda>p. pallet_id p = q) ps)"
  by (induction ps) auto

lemma step_keeps_status:
  assumes "\<not> is_scan r" and "the_pallet q d = Some p0" and "the_pallet q (step L d r) = Some p1"
  shows "status p1 = status p0"
proof (cases r)
  case (Create now b)
  show ?thesis
  proof (cases "create_pallet L now b d")
    case (Pair res d')
    show ?thesis
    proof (cases res)
      case (Failure c m)
      with Pair create_pallet_Failure[of L now b d c m d'] Create assms show ?thesis by simp
    next
      case (Success c x)
      from create_pallet_Success[OF Pair[unfolded Success]]
      obtain row where "d' = d\<lparr>pallets := pallets d @ [row]\<rparr>" by blast
      with Pair Create assms show ?thesis
        by (simp add: the_pallet_def find_append_Some)
    qed
  qed
next
  case (Scan now u pid b)
  with assms(1) show ?thesis by simp
next
  case (History pid)
  with assms show ?thesis by simp
next
  case (Update now pid b)
  from update_pallet_frame[of L now pid b d]
  have "map_option status (the_pallet q (snd (update_pallet L now pid b d)))
          = map_option status (the_pallet q d)"
    unfolding the_pallet_def by (intro find_status_same) simp_all
  with Update assms show ?thesis by simp
next
  case (Delete pid)
  with assms show ?thesis
    by (simp add: delete_pallet_result the_pallet_def find_filter_neq split: if_splits)
next
  case (SetQr url key)
  from set_qr_code_url_frame[of L url key d]
  have "map_option status (the_pallet q (set_qr_code_url L url key d))
          = map_option status (the_pallet q d)"
    unfolding the_pallet_def by (intro find_status_same) simp_all
  with SetQr assms show ?thesis by simp
qed

subsection \<open>Statuses stay among the seven\<close>

lemma statuses_by_map:
  "list_all (\<lambda>p. status p \<in> set validStatuses) ps
     = list_all (\<lambda>s. s \<in> set validStatuses) (map status ps)"
  by (simp add: list_all_iff)

lemma statuses_step:
  assumes ok: "list_all (\<lambda>p. status p \<in> set validStatuses) (pallets d)"
  shows "list_all (\<lambda>p. status p \<in> set validStatuses) (pallets (step L d r))"
proof (cases r)
  case (Create now b)
  show ?thesis
  proof (cases "create_pallet L now b d")
    case (Pair res d')
    show ?thesis
    proof (cases res)
      case (Failure c m)
      with Pair create_pallet_Failure[of L now b d c m d'] Create ok show ?thesis by simp
    next
      case (Success c x)
      from create_pallet_Success[OF Pair[unfolded Success]]
      obtain row where "d' = d\<lparr>pallets := pallets d @ [row]\<rparr>" "status row = ''At Production''"
        by blast
      moreover have "''At Production'' \<in> set validStatuses" by (simp add: validStatuses_def)
      ultimately show ?thesis using Pair Create ok by simp
    qed
  qed
next
  case (Scan now u pid b)
  show ?thesis
  proof (cases "scan_pallet L now u pid b d")
    case (Pair res d')
    show ?thesis
    proof (cases res)
      case (Failure c m)
      with Pair scan_pallet_Failure[of L now u pid b d c m d'] Scan ok show ?thesis by simp
    next
      case (Success c x)
      from scan_pallet_Success[OF Pair[unfolded Success]]
      obtain s loc a where v: "s \<in> set validStatuses"
        and d': "d' = d\<lparr>pallets := map (\<lambda>p. if pallet_id p = pid then scan_write s now loc p else p)
                                (pallets d),
                   pallet_scans := pallet_scans d @ [a]\<rparr>"
        by blast
      have "pallets d' = map (\<lambda>p. if pallet_id p = pid then scan_write s now loc p else p) (pallets d)"
        by (simp add: d')
      with list_all_scan_write[OF ok v, of pid now loc] Pair Scan show ?thesis by simp
    qed
  qed
next
  case (History pid)
  with ok show ?thesis by simp
next
  case (Update now pid b)
  from update_pallet_frame[of L now pid b d] ok Update show ?thesis
    unfolding statuses_by_map by simp
next
  case (Delete pid)
  with ok show ?thesis by (simp add: delete_pallet_result list_all_iff)
next
  case (SetQr url key)
  from set_qr_code_url_frame[of L url key d] ok SetQr show ?thesis
    unfolding statuses_by_map by simp
qed

lemma statuses_run:
  "list_all (\<lambda>p. status p \<in> set validStatuses) (pallets d)
     \<Longrightarrow> list_all (\<lambda>p. status p \<in> set validStatuses) (pallets (run L d rs))"
  unfolding run_def by (induction rs arbitrary: d) (simp_all add: statuses_step)

subsection \<open>Chains of audit rows and the order of a history\<close>

lemma chained_snoc:
  "chained s rs t \<Longrightarrow> previous_status a = Some t \<Longrightarrow> chained s (rs @ [a]) (new_status a)"
  by (induction rs arbitrary: s) auto

lemma chained_nth:
  "chained s rs t \<Longrightarrow> Suc i < length rs
     \<Longrightarrow> previous_status (rs ! Suc i) = Some (new_status (rs ! i))"
proof (induction rs arbitrary: s i)
  case Nil
  then show ?case by simp
next
  case (Cons r rs)
  show ?case
  proof (cases i)
    case 0
    with Cons.prems show ?thesis by (cases rs) auto
  next
    case (Suc j)
    with Cons.prems Cons.IH[of "new_status r" j] show ?thesis by auto
  qed
qed

lemma chained_hd: "chained s rs t \<Longrightarrow> rs \<noteq> [] \<Longrightarrow> previous_status (hd rs) = Some s"
  by (cases rs) auto

lemma chained_last: "chained s rs t \<Longrightarrow> rs \<noteq> [] \<Longrightarrow> new_status (last rs) = t"
proof (induction rs arbitrary: s)
  case Nil
  then show ?case by simp
next
  case (Cons r rs)
  then show ?case by (cases rs) auto
qed

lemma insort_key_snoc:
  fixes g :: "'a \<Rightarrow> int"
  shows "\<forall>y\<in>set ys. g y < g x \<Longrightarrow> insort_key g x ys = ys @ [x]"
  by (induction ys) auto

lemma sort_key_desc_rev:
  fixes f :: "'a \<Rightarrow> int"
  assumes "sorted_wrt (<) (map f xs)"
  shows "sort_key (\<lambda>x. - f x) xs = rev xs"
  using assms
proof (induction xs)
  case Nil
  then show ?case by simp
next
  case (Cons x xs)
  then have "sort_key (\<lambda>x. - f x) xs = rev xs" and "\<forall>y\<in>set xs. f x < f y"
    by auto
  then show ?case
    by (simp add: insort_key_snoc)
qed

lemma select_scans_JStr:
  "select_scans L (JStr pid) d =
     (if nul_free pid then Some (sort_key (\<lambda>s. - scanned_at s) (audit_rows pid d)) else None)"
  by (simp add: select_scans_def audit_rows_def)

lemma get_history_eq:
  "get_history L pid d =
     (if nul_free pid
      then Success 200 (pid, sort_key (\<lambda>s. - scanned_at s) (audit_rows pid d))
      else Failure 500 ''Failed to fetch pallet history'')"
  by (simp add: get_history_def select_scans_JStr)

lemma sort_key_desc_sorted:
  "sorted_wrt (\<lambda>a b. scanned_at a \<ge> scanned_at b) (sort_key (\<lambda>s. - scanned_at s) rows)"
proof -
  have "sorted (map (\<lambda>s. - scanned_at s) (sort_key (\<lambda>s. - scanned_at s) rows))"
    by (rule sorted_sort_key)
  then show ?thesis by (simp add: sorted_map)
qed

lemma audit_rows_absent:
  assumes "schema_ok d" and "pid \<notin> set (map pallet_id (pallets d))"
  shows "audit_rows pid d = []"
  using assms by (auto simp: schema_ok_def audit_rows_def list_all_iff filter_empty_conv)

lemma the_pallet_None_iff: "the_pallet pid d = None \<longleftrightarrow> pid \<notin> set (map pallet_id (pallets d))"
  by (auto simp: the_pallet_def find_None_iff)

lemma audit_rows_after_scan:
  "scan_pallet_id a = pid \<Longrightarrow>
   audit_rows pid (d\<lparr>pallets := ps, pallet_scans := pallet_scans d @ [a]\<rparr>) = audit_rows pid d @ [a]"
  by (simp add: audit_rows_def)

lemma scan_all_chain:
  assumes "schema_ok d" and "the_pallet pid d = Some p"
    and "chained s0 (audit_rows pid d) (status p)"
    and "scan_all L pid reqs d = Some dn"
  shows "\<exists>p'. the_pallet pid dn = Some p'
           \<and> chained s0 (audit_rows pid dn) (status p')
           \<and> map scanned_at (audit_rows pid dn) = map scanned_at (audit_rows pid d) @ map fst reqs"
  using assms
proof (induction reqs arbitrary: d p)
  case Nil
  then show ?case by simp
next
  case (Cons req reqs)
  obtain now u b where req: "req = (now, u, b)" by (cases req)
  obtain res d' where sp: "scan_pallet L now u pid b d = (res, d')"
    by (cases "scan_pallet L now u pid b d")
  from Cons.prems(4) req sp obtain c x where res: "res = Success c x"
    and rest: "scan_all L pid reqs d' = Some dn"
    by (cases res) auto
  from scan_pallet_Success_schema[OF Cons.prems(1) sp[unfolded res]]
  obtain s p0 loc a where p0: "the_pallet pid d = Some p0"
    and d': "d' = d\<lparr>pallets := map (\<lambda>p. if pallet_id p = pid then scan_write s now loc p else p)
                                (pallets d),
                   pallet_scans := pallet_scans d @ [a]\<rparr>"
    and a: "scan_pallet_id a = pid" "previous_status a = Some (status p0)"
      "new_status a = s" "scanned_at a = now"
    by blast
  from p0 Cons.prems(2) have pp: "p0 = p" by simp
  have ok': "schema_ok d'"
    using schema_ok_scan_pallet[OF Cons.prems(1), of L now u pid b] sp by simp
  have tp': "the_pallet pid d' = Some (scan_write s now loc p)"
    unfolding d' the_pallet_after_scan using Cons.prems(2) by simp
  have rows': "audit_rows pid d' = audit_rows pid d @ [a]"
    unfolding d' by (rule audit_rows_after_scan[OF a(1)])
  have ch': "chained s0 (audit_rows pid d') (status (scan_write s now loc p))"
    unfolding rows' status_scan_write
    using chained_snoc[OF Cons.prems(3), of a] a(2,3) pp by simp
  from Cons.IH[OF ok' tp' ch' rest]
  obtain p' where "the_pallet pid dn = Some p'"
    and "chained s0 (audit_rows pid dn) (status p')"
    and "map scanned_at (audit_rows pid dn) = map scanned_at (audit_rows pid d') @ map fst reqs"
    by blast
  then show ?case
    using rows' a(4) req by auto
qed

lemma the_pallet_created:
  assumes "pallet_id row \<notin> set (map pallet_id (pallets d))"
  shows "the_pallet (pallet_id row) (d\<lparr>pallets := pallets d @ [row]\<rparr>) = Some row"
proof -
  have "find (\<lambda>p. pallet_id p = k) (ps @ [row]) = Some row"
    if "k \<notin> set (map pallet_id ps)" "pallet_id row = k" for ps k
    using that by (induction ps) auto
  with assms show ?thesis by (simp add: the_pallet_def)
qed

lemma audit_rows_created:
  "audit_rows pid (d\<lparr>pallets := ps\<rparr>) = audit_rows pid d"
  by (simp add: audit_rows_def)

lemma scans_after_create:
  assumes ok: "schema_ok d0"
    and created: "create_pallet L t0 b0 d0 = (Success c (Some p), d1)"
    and scans: "scan_all L (pallet_id p) reqs d1 = Some dn"
  shows "\<exists>p'. the_pallet (pallet_id p) dn = Some p'
           \<and> chained ''At Production'' (audit_rows (pallet_id p) dn) (status p')
           \<and> map scanned_at (audit_rows (pallet_id p) dn) = map fst reqs"
proof -
  from create_pallet_Success[OF created]
  have d1: "d1 = d0\<lparr>pallets := pallets d0 @ [p]\<rparr>"
    and fresh: "pallet_id p \<notin> set (map pallet_id (pallets d0))"
    and st: "status p = ''At Production''"
    by auto
  have ok1: "schema_ok d1"
    using schema_ok_create_pallet[OF ok, of L t0 b0] created by simp
  have tp: "the_pallet (pallet_id p) d1 = Some p"
    unfolding d1 by (rule the_pallet_created[OF fresh])
  have rows: "audit_rows (pallet_id p) d1 = []"
    unfolding d1 audit_rows_created by (rule audit_rows_absent[OF ok fresh])
  have ch: "chained ''At Production'' (audit_rows (pallet_id p) d1) (status p)"
    by (simp add: rows st)
  from scan_all_chain[OF ok1 tp ch scans] rows show ?thesis by simp
qed

lemma audit_rows_deleted:
  "nul_free pid \<Longrightarrow> audit_rows pid (snd (delete_pallet L pid d)) = []"
  by (simp add: delete_pallet_result audit_rows_def)

lemma the_pallet_deleted:
  "nul_free pid \<Longrightarrow> the_pallet pid (snd (delete_pallet L pid d)) = None"
  by (simp add: delete_pallet_result the_pallet_def find_filter_neq)

subsection \<open>When a scan is accepted\<close>

lemma scan_pallet_Success_writes:
  assumes "scan_pallet L now u pid b d = (Success c x, d')"
  shows "\<exists>p0 rest rows tx1 tx2.
           select_pallets L (JStr pid) d = Some (p0 # rest)
         \<and> update_pallets L now (scan_sets b) (JStr pid) d = Some (rows, tx1)
         \<and> insert_scan L now (JStr pid) (actor_id u) (JStr (full_name u))
               (JStr (status p0)) (newStatus b) (warehouseLocation b)
               (scanLatitude b) (scanLongitude b) (scanNotes b) tx1 = Some tx2"
proof -
  have inc: "js_includes validStatuses (newStatus b)"
    using assms scan_pallet_invalid[of b L now u pid d]
    by (cases "js_includes validStatuses (newStatus b)") auto
  obtain sel where rows: "select_pallets L (JStr pid) d = Some sel"
    using assms scan_pallet_select_fails[OF inc, of L pid d now u]
    by (cases "select_pallets L (JStr pid) d") auto
  obtain p0 rest where sel: "select_pallets L (JStr pid) d = Some (p0 # rest)"
    using assms scan_pallet_missing[OF inc, of L pid d now u] rows
    by (cases sel) auto
  let ?upd = "update_pallets L now (scan_sets b) (JStr pid) d"
  obtain rws tx1 where upd: "?upd = Some (rws, tx1)"
  proof (cases ?upd)
    case None
    then have "scan_pallet L now u pid b d = (Failure 500 ''Failed to scan pallet'', d)"
      using inc sel by (simp add: scan_pallet_def)
    with assms show ?thesis by simp
  next
    case (Some a)
    then show ?thesis using that by (cases a) simp
  qed
  let ?ins = "insert_scan L now (JStr pid) (actor_id u) (JStr (full_name u))
               (JStr (status p0)) (newStatus b) (warehouseLocation b)
               (scanLatitude b) (scanLongitude b) (scanNotes b) tx1"
  obtain tx2 where ins: "?ins = Some tx2"
  proof (cases ?ins)
    case None
    then have "scan_pallet L now u pid b d = (Failure 500 ''Failed to scan pallet'', d)"
      using inc sel upd by (simp add: scan_pallet_def)
    with assms show ?thesis by simp
  next
    case (Some a)
    then show ?thesis using that by simp
  qed
  from sel upd ins show ?thesis by blast
qed

lemma scan_pallet_Success_storable:
  assumes "scan_pallet L now u pid b d = (Success c x, d')"
  shows "scan_storable L u pid b d"
proof -
  from scan_pallet_Success_writes[OF assms]
  obtain p0 rest rows tx1 tx2 where sel: "select_pallets L (JStr pid) d = Some (p0 # rest)"
    and upd: "update_pallets L now (scan_sets b) (JStr pid) d = Some (rows, tx1)"
    and ins: "insert_scan L now (JStr pid) (actor_id u) (JStr (full_name u))
               (JStr (status p0)) (newStatus b) (warehouseLocation b)
               (scanLatitude b) (scanLongitude b) (scanNotes b) tx1 = Some tx2"
    by blast
  from ins[unfolded insert_scan_Some]
  obtain fid fname loc lat lon nt where
      c: "not_null (varchar_in 50 (prepareValue L (actor_id u))) = Some fid"
         "not_null (varchar_in 100 (prepareValue L (JStr (full_name u)))) = Some fname"
         "varchar_in 50 (prepareValue L (warehouseLocation b)) = Some loc"
         "decimal_in L 10 8 (prepareValue L (scanLatitude b)) = Some lat"
         "decimal_in L 11 8 (prepareValue L (scanLongitude b)) = Some lon"
         "text_in (prepareValue L (scanNotes b)) = Some nt"
         "Some fid \<in> set (map flo_id (users tx1))"
    by (elim exE conjE)
  have us: "users tx1 = users d"
    using update_pallets_other_tables[OF upd] by simp
  have "nul_free pid" using select_pallets_JStr_Some[OF sel] by simp
  moreover have "the_pallet pid d \<noteq> None" using the_pallet_select[OF sel] by simp
  ultimately show ?thesis
    using c us by (simp add: scan_storable_def)
qed

lemma scan_pallet_storable_Success:
  assumes ok: "schema_ok d" and ns: "newStatus b = JStr s" and v: "s \<in> set validStatuses"
    and st: "scan_storable L u pid b d"
  shows "\<exists>x d'. scan_pallet L now u pid b d = (Success 200 x, d')"
proof -
  from st have nf: "nul_free pid" and ex: "the_pallet pid d \<noteq> None"
    and wl: "varchar_in 50 (prepareValue L (warehouseLocation b)) \<noteq> None"
    by (simp_all add: scan_storable_def)
  from st obtain fid where fid: "not_null (varchar_in 50 (prepareValue L (actor_id u))) = Some fid"
    and fk: "Some fid \<in> set (map flo_id (users d))"
    by (cases "not_null (varchar_in 50 (prepareValue L (actor_id u)))")
       (simp_all add: scan_storable_def)
  from st obtain fname lat lon nt where
      c: "not_null (varchar_in 100 (prepareValue L (JStr (full_name u)))) = Some fname"
         "decimal_in L 10 8 (prepareValue L (scanLatitude b)) = Some lat"
         "decimal_in L 11 8 (prepareValue L (scanLongitude b)) = Some lon"
         "text_in (prepareValue L (scanNotes b)) = Some nt"
    by (auto simp: scan_storable_def)
  from wl obtain x where x: "varchar_in 50 (prepareValue L (warehouseLocation b)) = Some x"
    by auto
  from ex obtain p0 where p0: "the_pallet pid d = Some p0" by auto
  from the_pallet_Some_select[OF p0 nf]
  obtain rest where sel: "select_pallets L (JStr pid) d = Some (p0 # rest)" by blast
  have inc: "js_includes validStatuses (newStatus b)" using ns v by simp
  obtain loc where loc: "stored_location L b loc"
  proof (cases "truthy (warehouseLocation b)")
    case True
    from truthy_prepareValue[OF True] x have "x \<noteq> None"
      by (rule varchar_in_Some_not_Null)
    with True x have "stored_location L b x" by (simp add: stored_location_def)
    then show ?thesis by (rule that)
  next
    case False
    then have "stored_location L b None" by (simp add: stored_location_def)
    then show ?thesis by (rule that)
  qed
  let ?ps1 = "map (\<lambda>p. if pallet_id p = pid then scan_write s now loc p else p) (pallets d)"
  let ?tx1 = "d\<lparr>pallets := ?ps1\<rparr>"
  from select_pallets_JStr_Some[OF sel]
  have flt: "filter (\<lambda>p. pallet_id p = pid) (pallets d) = p0 # rest" by simp
  have upd: "update_pallets L now (scan_sets b) (JStr pid) d
               = Some (scan_write s now loc p0 # map (scan_write s now loc) rest, ?tx1)"
    using update_pallets_scan_Some[OF ns v loc nf, of now d] flt by simp
  have len: "length pid \<le> 50" "status p0 \<in> set validStatuses"
    using schema_ok_the_pallet[OF ok p0] by auto
  have c1: "not_null (varchar_in 50 (prepareValue L (JStr pid))) = Some pid"
    using len(1) nf by (simp add: varchar_in_fits not_null_def)
  have c4: "varchar_in 50 (prepareValue L (JStr (status p0))) = Some (Some (status p0))"
    using len(2) by (simp add: varchar_in_fits valid_status_length valid_status_nul_free)
  have c5: "not_null (varchar_in 50 (prepareValue L (newStatus b))) = Some s"
    using v ns by (simp add: varchar_in_fits valid_status_length valid_status_nul_free not_null_def)
  have fkp: "pid \<in> set (map pallet_id (pallets ?tx1))"
  proof -
    have "pallets ?tx1 = ?ps1" by simp
    moreover have "pid \<in> set (map pallet_id (pallets d))"
      using the_pallet_in[OF p0] by auto
    ultimately show ?thesis by (simp only: map_pallet_id_scan_write)
  qed
  have fku: "Some fid \<in> set (map flo_id (users ?tx1))" using fk by simp
  let ?ins = "insert_scan L now (JStr pid) (actor_id u) (JStr (full_name u))
               (JStr (status p0)) (newStatus b) (warehouseLocation b)
               (scanLatitude b) (scanLongitude b) (scanNotes b) ?tx1"
  have "\<exists>tx2. ?ins = Some tx2"
    unfolding insert_scan_Some
    using c1 fid c(1) c4 c5 x c(2,3,4) fkp fku by blast
  then obtain tx2 where ins: "?ins = Some tx2" ..
  have "scan_pallet L now u pid b d =
          (Success 200 (Some (scan_write s now loc p0), status p0, JStr s), tx2)"
    using inc sel upd ins ns by (simp add: scan_pallet_def Let_def)
  then show ?thesis by blast
qed

lemma pallets_restatus:
  "pallets (restatus q t d) = map (\<lambda>p. if pallet_id p = q then p\<lparr>status := t\<rparr> else p) (pallets d)"
  by (simp add: restatus_def)

lemma map_pallet_id_restatus:
  "map pallet_id (pallets (restatus q t d)) = map pallet_id (pallets d)"
  unfolding pallets_restatus by (induction "pallets d" arbitrary: d) (simp_all add: comp_def)

lemma restatus_other_tables:
  "users (restatus q t d) = users d" "pallet_scans (restatus q t d) = pallet_scans d"
  by (simp_all add: restatus_def)

lemma statuses_restatus:
  "list_all (\<lambda>p. status p \<in> set validStatuses) (pallets d) \<Longrightarrow> t \<in> set validStatuses
     \<Longrightarrow> list_all (\<lambda>p. status p \<in> set validStatuses) (pallets (restatus q t d))"
  unfolding pallets_restatus by (auto simp: list_all_iff)

lemma schema_ok_restatus:
  assumes "schema_ok d" and "t \<in> set validStatuses"
  shows "schema_ok (restatus q t d)"
  using assms statuses_restatus[of d t q]
  unfolding schema_ok_alt map_pallet_id_restatus restatus_other_tables
  by simp

lemma the_pallet_restatus:
  "(the_pallet pid (restatus q t d) \<noteq> None) = (the_pallet pid d \<noteq> None)"
  unfolding the_pallet_None_iff map_pallet_id_restatus ..

lemma scan_storable_restatus:
  "scan_storable L u pid b (restatus q t d) = scan_storable L u pid b d"
  unfolding scan_storable_def the_pallet_restatus restatus_other_tables ..

lemma scan_storable_newStatus:
  "scan_storable L u pid (b\<lparr>newStatus := v\<rparr>) d = scan_storable L u pid b d"
  by (simp add: scan_storable_def)

lemma scan_pallet_accepted_iff:
  assumes "schema_ok d" and "js_includes validStatuses (newStatus b)"
  shows "accepted (fst (scan_pallet L now u pid b d)) = scan_storable L u pid b d"
proof (cases "scan_storable L u pid b d")
  case True
  from assms(2) obtain s where "newStatus b = JStr s" "s \<in> set validStatuses"
    using js_includes_JStr by blast
  from scan_pallet_storable_Success[OF assms(1) this True, of now]
  show ?thesis using True by auto
next
  case False
  obtain r d' where r: "scan_pallet L now u pid b d = (r, d')"
    by (cases "scan_pallet L now u pid b d")
  have "\<not> accepted r"
  proof (cases r)
    case (Success c x)
    from scan_pallet_Success_storable[OF r[unfolded Success]] False show ?thesis by simp
  next
    case (Failure c m)
    then show ?thesis by simp
  qed
  with r False show ?thesis by simp
qed


section \<open>Creation\<close>

text \<open>
  Claim C10. The create route answers 400 with the required-fields message, and creates
  nothing, whenever \<open>palletId\<close>, \<open>itemCode\<close>, \<open>itemName\<close> or \<open>itemQuantity\<close> is absent or
  falsy; so it does for the quantity 0 and for the empty \<open>palletId\<close>. The table itself
  takes both: the INSERT of a row with the empty \<open>pallet_id\<close> and the quantity 0 succeeds
  (for a library that writes the number 0 as \<open>0\<close> and reads it back, and an item code and
  name that fit their columns and are free of the character U+0000, which the database
  takes in no text: with it in the item code or name the INSERT fails).
\<close>

theorem create_pallet_rejects_falsy_required:
  "(\<not> truthy (palletId b) \<or> \<not> truthy (itemCode b) \<or> \<not> truthy (itemName b)
      \<or> \<not> truthy (itemQuantity b)
     \<longrightarrow> create_pallet L now b d =
           (Failure 400 ''Pallet ID, item code, item name, and quantity are required'', d))
   \<and> create_pallet L now (b\<lparr>itemQuantity := JNum 0\<rparr>) d =
       (Failure 400 ''Pallet ID, item code, item name, and quantity are required'', d)
   \<and> create_pallet L now (b\<lparr>palletId := JStr []\<rparr>) d =
       (Failure 400 ''Pallet ID, item code, item name, and quantity are required'', d)
   \<and> (js_text L (JNum 0) = ''0'' \<and> int4_in L ''0'' = Some 0 \<and> length c \<le> 50 \<and> length n \<le> 100
        \<and> nul_free c \<and> nul_free n
        \<and> [] \<notin> set (map pallet_id (pallets d))
       \<longrightarrow> (\<exists>row. insert_pallet L now (JStr []) (JStr c) (JStr n) (JNum 0) JUndefined JUndefined
                    JUndefined JUndefined JUndefined JUndefined d
                  = Some ([row], d\<lparr>pallets := pallets d @ [row]\<rparr>)
                \<and> pallet_id row = [] \<and> item_quantity row = 0))
   \<and> (\<not> nul_free c \<or> \<not> nul_free n
       \<longrightarrow> insert_pallet L now (JStr []) (JStr c) (JStr n) (JNum 0) JUndefined JUndefined
             JUndefined JUndefined JUndefined JUndefined d = None)"
proof (intro conjI impI)
  assume "\<not> truthy (palletId b) \<or> \<not> truthy (itemCode b) \<or> \<not> truthy (itemName b)
      \<or> \<not> truthy (itemQuantity b)"
  then show "create_pallet L now b d =
           (Failure 400 ''Pallet ID, item code, item name, and quantity are required'', d)"
    unfolding create_pallet_def by (simp only: if_True)
next
  show "create_pallet L now (b\<lparr>itemQuantity := JNum 0\<rparr>) d =
       (Failure 400 ''Pallet ID, item code, item name, and quantity are required'', d)"
    by (simp add: create_pallet_def)
next
  show "create_pallet L now (b\<lparr>palletId := JStr []\<rparr>) d =
       (Failure 400 ''Pallet ID, item code, item name, and quantity are required'', d)"
    by (simp add: create_pallet_def)
next
  assume h: "js_text L (JNum 0) = ''0'' \<and> int4_in L ''0'' = Some 0 \<and> length c \<le> 50 \<and> length n \<le> 100
        \<and> nul_free c \<and> nul_free n
        \<and> [] \<notin> set (map pallet_id (pallets d))"
  have z: "nul_free ''0''" "nul_free []" by (simp_all add: nul_free_def)
  from h z show "\<exists>row. insert_pallet L now (JStr []) (JStr c) (JStr n) (JNum 0) JUndefined JUndefined
                    JUndefined JUndefined JUndefined JUndefined d
                  = Some ([row], d\<lparr>pallets := pallets d @ [row]\<rparr>)
                \<and> pallet_id row = [] \<and> item_quantity row = 0"
    by (simp add: insert_pallet_def not_null_def varchar_in_def integer_in_def
        decimal_in_def date_col_in_def Let_def)
next
  assume h: "\<not> nul_free c \<or> \<not> nul_free n"
  have z: "nul_free []" by (simp add: nul_free_def)
  from h z show "insert_pallet L now (JStr []) (JStr c) (JStr n) (JNum 0) JUndefined JUndefined
             JUndefined JUndefined JUndefined JUndefined d = None"
    by (auto simp: insert_pallet_def not_null_def varchar_in_def split: Option.bind_splits)
qed

theorem create_pallet_rejects_falsy_required_witness:
  "create_pallet plain_lib 1 (demo_create\<lparr>itemName := JNull\<rparr>) demo_db =
     (Failure 400 ''Pallet ID, item code, item name, and quantity are required'', demo_db)
   \<and> (\<exists>row. insert_pallet plain_lib 1 (JStr []) (JStr ''ITEM-001'') (JStr ''Widget A'') (JNum 0)
               JUndefined JUndefined JUndefined JUndefined JUndefined JUndefined demo_db
             = Some ([row], demo_db\<lparr>pallets := pallets demo_db @ [row]\<rparr>)
           \<and> pallet_id row = [] \<and> item_quantity row = 0)
   \<and> \<not> nul_free nul_id
   \<and> insert_pallet plain_lib 1 (JStr []) (JStr nul_id) (JStr ''Widget A'') (JNum 0)
         JUndefined JUndefined JUndefined JUndefined JUndefined JUndefined demo_db = None"
proof -
  have h1: "\<not> truthy (palletId (demo_create\<lparr>itemName := JNull\<rparr>))
      \<or> \<not> truthy (itemCode (demo_create\<lparr>itemName := JNull\<rparr>))
      \<or> \<not> truthy (itemName (demo_create\<lparr>itemName := JNull\<rparr>))
      \<or> \<not> truthy (itemQuantity (demo_create\<lparr>itemName := JNull\<rparr>))"
    by simp
  have h2: "js_text plain_lib (JNum 0) = ''0'' \<and> int4_in plain_lib ''0'' = Some 0
      \<and> length ''ITEM-001'' \<le> 50 \<and> length ''Widget A'' \<le> 100
      \<and> nul_free ''ITEM-001'' \<and> nul_free ''Widget A''
      \<and> [] \<notin> set (map pallet_id (pallets demo_db))"
    by code_simp
  have h3: "\<not> nul_free nul_id" by code_simp
  note T = create_pallet_rejects_falsy_required
         [of "demo_create\<lparr>itemName := JNull\<rparr>" plain_lib 1 demo_db "''ITEM-001''" "''Widget A''"]
  note N = create_pallet_rejects_falsy_required
         [of "demo_create\<lparr>itemName := JNull\<rparr>" plain_lib 1 demo_db nul_id "''Widget A''"]
  from T h1 have a: "create_pallet plain_lib 1 (demo_create\<lparr>itemName := JNull\<rparr>) demo_db =
     (Failure 400 ''Pallet ID, item code, item name, and quantity are required'', demo_db)"
    by blast
  from T h2 have b: "\<exists>row. insert_pallet plain_lib 1 (JStr []) (JStr ''ITEM-001'') (JStr ''Widget A'') (JNum 0)
               JUndefined JUndefined JUndefined JUndefined JUndefined JUndefined demo_db
             = Some ([row], demo_db\<lparr>pallets := pallets demo_db @ [row]\<rparr>)
           \<and> pallet_id row = [] \<and> item_quantity row = 0"
    by blast
  from N h3 have c: "insert_pallet plain_lib 1 (JStr []) (JStr nul_id) (JStr ''Widget A'') (JNum 0)
         JUndefined JUndefined JUndefined JUndefined JUndefined JUndefined demo_db = None"
    by blast
  show ?thesis by (intro conjI a b h3 c)
qed

text \<open>
  Claim C7, as the code has it. The required-fields guard comes before the duplicate
  check: on the database holding PLT001, a create request for PLT001 without an
  \<open>itemCode\<close> is answered with the required-fields message, not with
  \<open>Pallet ID already exists\<close>.
\<close>

theorem create_duplicate_missing_field_counterexample:
  "select_pallets plain_lib (palletId (demo_create\<lparr>itemCode := JUndefined\<rparr>)) demo_db1
     = Some [demo_pallet]
   \<and> create_pallet plain_lib 2 (demo_create\<lparr>itemCode := JUndefined\<rparr>) demo_db1
       = (Failure 400 ''Pallet ID, item code, item name, and quantity are required'', demo_db1)
   \<and> fst (create_pallet plain_lib 2 (demo_create\<lparr>itemCode := JUndefined\<rparr>) demo_db1)
       \<noteq> Failure 400 ''Pallet ID already exists''"
  by code_simp

text \<open>
  Claim C7, amended. A create request whose \<open>palletId\<close> is already stored answers 400
  and leaves the database, hence the stored pallet and its audit rows, as they were;
  the message is \<open>Pallet ID already exists\<close> when the four required fields are truthy
  and the required-fields message otherwise.
\<close>

theorem create_pallet_duplicate:
  assumes "select_pallets L (palletId b) d = Some rows" and "rows \<noteq> []"
  shows "create_pallet L now b d =
           (Failure 400
              (if truthy (palletId b) \<and> truthy (itemCode b) \<and> truthy (itemName b)
                  \<and> truthy (itemQuantity b)
               then ''Pallet ID already exists''
               else ''Pallet ID, item code, item name, and quantity are required''), d)"
  using assms by (simp add: create_pallet_def)

theorem create_pallet_duplicate_witness:
  "select_pallets plain_lib (palletId demo_create) demo_db1 = Some [demo_pallet]
   \<and> create_pallet plain_lib 2 demo_create demo_db1
       = (Failure 400 ''Pallet ID already exists'', demo_db1)"
proof -
  have h: "select_pallets plain_lib (palletId demo_create) demo_db1 = Some [demo_pallet]"
    by code_simp
  have ne: "[demo_pallet] \<noteq> []" by simp
  have t: "truthy (palletId demo_create) \<and> truthy (itemCode demo_create)
      \<and> truthy (itemName demo_create) \<and> truthy (itemQuantity demo_create)"
    by code_simp
  from create_pallet_duplicate[OF h ne, of 2] t
  have "create_pallet plain_lib 2 demo_create demo_db1
       = (Failure 400 ''Pallet ID already exists'', demo_db1)"
    by simp
  with h show ?thesis by (intro conjI)
qed

text \<open>
  Claim C8. A pallet the create route creates has the status \<open>At Production\<close>. And when
  every stored pallet has one of the seven statuses, so has every stored pallet after any
  sequence of requests.
\<close>

theorem created_at_production_and_statuses_valid:
  "(create_pallet L now b d = (Success c x, d')
      \<longrightarrow> (\<exists>row. x = Some row \<and> status row = ''At Production''
                  \<and> pallets d' = pallets d @ [row]))
   \<and> (list_all (\<lambda>p. status p \<in> set validStatuses) (pallets d)
      \<longrightarrow> list_all (\<lambda>p. status p \<in> set validStatuses) (pallets (run L d rs)))"
proof (intro conjI impI)
  assume "create_pallet L now b d = (Success c x, d')"
  from create_pallet_Success[OF this]
  obtain row where "x = Some row" "d' = d\<lparr>pallets := pallets d @ [row]\<rparr>"
    "status row = ''At Production''"
    by blast
  then show "\<exists>row. x = Some row \<and> status row = ''At Production'' \<and> pallets d' = pallets d @ [row]"
    by simp
next
  assume "list_all (\<lambda>p. status p \<in> set validStatuses) (pallets d)"
  then show "list_all (\<lambda>p. status p \<in> set validStatuses) (pallets (run L d rs))"
    by (rule statuses_run)
qed

theorem created_at_production_and_statuses_valid_witness:
  "create_pallet plain_lib 1 demo_create demo_db = (Success 201 (Some demo_pallet), demo_db1)
   \<and> (\<exists>row. Some demo_pallet = Some row \<and> status row = ''At Production''
            \<and> pallets demo_db1 = pallets demo_db @ [row])
   \<and> list_all (\<lambda>p. status p \<in> set validStatuses) (pallets demo_db)
   \<and> list_all (\<lambda>p. status p \<in> set validStatuses)
        (pallets (run plain_lib demo_db
           [Create 1 demo_create,
            Scan 5 demo_flo ''PLT001'' (status_body ''At Warehouse''),
            Update 7 ''PLT001'' demo_update,
            Scan 8 demo_flo ''PLT001'' (status_body ''Shipped''),
            Scan 9 demo_flo ''PLT001'' (status_body ''At Production'')]))"
proof -
  have h1: "create_pallet plain_lib 1 demo_create demo_db = (Success 201 (Some demo_pallet), demo_db1)"
    by code_simp
  have h2: "list_all (\<lambda>p. status p \<in> set validStatuses) (pallets demo_db)" by code_simp
  note T = created_at_production_and_statuses_valid
             [of plain_lib 1 demo_create demo_db 201 "Some demo_pallet" demo_db1
                 "[Create 1 demo_create,
                   Scan 5 demo_flo ''PLT001'' (status_body ''At Warehouse''),
                   Update 7 ''PLT001'' demo_update,
                   Scan 8 demo_flo ''PLT001'' (status_body ''Shipped''),
                   Scan 9 demo_flo ''PLT001'' (status_body ''At Production'')]"]
  from T h1 have a: "\<exists>row. Some demo_pallet = Some row \<and> status row = ''At Production''
            \<and> pallets demo_db1 = pallets demo_db @ [row]"
    by blast
  from T h2 have b: "list_all (\<lambda>p. status p \<in> set validStatuses)
        (pallets (run plain_lib demo_db
           [Create 1 demo_create,
            Scan 5 demo_flo ''PLT001'' (status_body ''At Warehouse''),
            Update 7 ''PLT001'' demo_update,
            Scan 8 demo_flo ''PLT001'' (status_body ''Shipped''),
            Scan 9 demo_flo ''PLT001'' (status_body ''At Production'')]))"
    by blast
  show ?thesis by (intro conjI h1 a h2 b)
qed

section \<open>Scanning\<close>

text \<open>
  Claim C1. A scan of an existing pallet with a valid status either answers 200, and
  then the database differs from the one before in exactly the rows of that pallet
  (new status, new \<open>updated_at\<close>, and the location when the request carries a truthy
  one) and in one audit row appended to \<open>pallet_scans\<close>; or it answers 500 and the
  database is the one before. In particular a failing UPDATE, and a failing INSERT after
  an UPDATE that went through, both end in the unchanged database.
\<close>

theorem scan_pallet_atomic:
  assumes valid: "js_includes validStatuses (newStatus b)"
    and present: "the_pallet pid d = Some p0"
  shows "(case scan_pallet L now u pid b d of
            (Success c x, d') \<Rightarrow>
              \<exists>s loc a. c = 200 \<and> newStatus b = JStr s \<and> stored_location L b loc
                \<and> x = (Some (scan_write s now loc p0), status p0, JStr s)
                \<and> users d' = users d
                \<and> pallets d' = map (\<lambda>p. if pallet_id p = pid then scan_write s now loc p else p)
                                  (pallets d)
                \<and> pallet_scans d' = pallet_scans d @ [a]
          | (Failure c m, d') \<Rightarrow> c = 500 \<and> d' = d)
       \<and> (update_pallets L now (scan_sets b) (JStr pid) d = None
            \<longrightarrow> scan_pallet L now u pid b d = (Failure 500 ''Failed to scan pallet'', d))
       \<and> (\<forall>rows tx1.
             update_pallets L now (scan_sets b) (JStr pid) d = Some (rows, tx1)
             \<and> insert_scan L now (JStr pid) (actor_id u) (JStr (full_name u))
                 (JStr (status p0)) (newStatus b) (warehouseLocation b)
                 (scanLatitude b) (scanLongitude b) (scanNotes b) tx1 = None
            \<longrightarrow> scan_pallet L now u pid b d = (Failure 500 ''Failed to scan pallet'', d))"
proof (intro conjI allI impI)
  from valid obtain s where s: "newStatus b = JStr s" "s \<in> set validStatuses"
    using js_includes_JStr by blast
  show "case scan_pallet L now u pid b d of
            (Success c x, d') \<Rightarrow>
              \<exists>s loc a. c = 200 \<and> newStatus b = JStr s \<and> stored_location L b loc
                \<and> x = (Some (scan_write s now loc p0), status p0, JStr s)
                \<and> users d' = users d
                \<and> pallets d' = map (\<lambda>p. if pallet_id p = pid then scan_write s now loc p else p)
                                  (pallets d)
                \<and> pallet_scans d' = pallet_scans d @ [a]
          | (Failure c m, d') \<Rightarrow> c = 500 \<and> d' = d"
  proof (cases "nul_free pid")
    case False
    then have "scan_pallet L now u pid b d = (Failure 500 ''Failed to scan pallet'', d)"
      using valid by (simp add: scan_pallet_select_fails select_pallets_nul)
    then show ?thesis by simp
  next
    case True
    with present obtain rest where sel: "select_pallets L (JStr pid) d = Some (p0 # rest)"
      using the_pallet_Some_select by blast
    from scan_pallet_outcome[OF s sel, of now u] show ?thesis
    proof (elim disjE exE conjE)
      assume "scan_pallet L now u pid b d = (Failure 500 ''Failed to scan pallet'', d)"
      then show ?thesis by simp
    next
      fix loc a
      assume "stored_location L b loc"
        and "scan_pallet L now u pid b d =
            (Success 200 (Some (scan_write s now loc p0), status p0, JStr s),
             d\<lparr>pallets := map (\<lambda>p. if pallet_id p = pid then scan_write s now loc p else p)
                            (pallets d),
               pallet_scans := pallet_scans d @ [a]\<rparr>)"
      then show ?thesis using s(1) by auto
    qed
  qed
next
  assume upd: "update_pallets L now (scan_sets b) (JStr pid) d = None"
  show "scan_pallet L now u pid b d = (Failure 500 ''Failed to scan pallet'', d)"
  proof (cases "nul_free pid")
    case False
    then show ?thesis using valid by (simp add: scan_pallet_select_fails select_pallets_nul)
  next
    case True
    with present obtain rest where sel: "select_pallets L (JStr pid) d = Some (p0 # rest)"
      using the_pallet_Some_select by blast
    from upd valid sel show ?thesis by (simp add: scan_pallet_def)
  qed
next
  fix rows tx1
  assume w: "update_pallets L now (scan_sets b) (JStr pid) d = Some (rows, tx1)
             \<and> insert_scan L now (JStr pid) (actor_id u) (JStr (full_name u))
                 (JStr (status p0)) (newStatus b) (warehouseLocation b)
                 (scanLatitude b) (scanLongitude b) (scanNotes b) tx1 = None"
  show "scan_pallet L now u pid b d = (Failure 500 ''Failed to scan pallet'', d)"
  proof (cases "nul_free pid")
    case False
    then show ?thesis using valid by (simp add: scan_pallet_select_fails select_pallets_nul)
  next
    case True
    with present obtain rest where sel: "select_pallets L (JStr pid) d = Some (p0 # rest)"
      using the_pallet_Some_select by blast
    from w valid sel show ?thesis by (simp add: scan_pallet_def)
  qed
qed

theorem scan_pallet_atomic_witness:
  "js_includes validStatuses (newStatus (status_body ''At Warehouse''))
   \<and> the_pallet ''PLT001'' demo_db1 = Some (hd (pallets demo_db1))
   \<and> update_pallets plain_lib 5 (scan_sets (status_body ''At Warehouse'')) (JStr ''PLT001'') demo_db1
       \<noteq> None
   \<and> scan_pallet plain_lib 5 demo_admin ''PLT001'' (status_body ''At Warehouse'') demo_db1
       = (Failure 500 ''Failed to scan pallet'', demo_db1)
   \<and> scan_pallet plain_lib 5 demo_flo ''PLT001'' (status_body ''At Warehouse'') demo_db1
       = (Success 200 (Some (demo_pallet\<lparr>status := ''At Warehouse'', updated_at := 5\<rparr>),
                       ''At Production'', JStr ''At Warehouse''), demo_db2)
   \<and> length (pallet_scans demo_db1) = 0 \<and> length (pallet_scans demo_db2) = 1"
proof -
  let ?b = "status_body ''At Warehouse''"
  let ?U = "update_pallets plain_lib 5 (scan_sets ?b) (JStr ''PLT001'') demo_db1"
  have h1: "js_includes validStatuses (newStatus ?b)" by code_simp
  have h2: "the_pallet ''PLT001'' demo_db1 = Some (hd (pallets demo_db1))" by code_simp
  have u: "?U = Some (fst (the ?U), snd (the ?U))" by code_simp
  have i: "insert_scan plain_lib 5 (JStr ''PLT001'') (actor_id demo_admin)
             (JStr (full_name demo_admin)) (JStr (status (hd (pallets demo_db1))))
             (newStatus ?b) (warehouseLocation ?b) (scanLatitude ?b) (scanLongitude ?b)
             (scanNotes ?b) (snd (the ?U)) = None"
    by code_simp
  have n: "?U \<noteq> None" by code_simp
  from scan_pallet_atomic[OF h1 h2, of plain_lib 5 demo_admin] u i
  have r: "scan_pallet plain_lib 5 demo_admin ''PLT001'' ?b demo_db1
       = (Failure 500 ''Failed to scan pallet'', demo_db1)"
    by blast
  have ok: "scan_pallet plain_lib 5 demo_flo ''PLT001'' ?b demo_db1
       = (Success 200 (Some (demo_pallet\<lparr>status := ''At Warehouse'', updated_at := 5\<rparr>),
                       ''At Production'', JStr ''At Warehouse''), demo_db2)"
    by code_simp
  have l1: "length (pallet_scans demo_db1) = 0" by code_simp
  have l2: "length (pallet_scans demo_db2) = 1" by code_simp
  show ?thesis by (intro conjI h1 h2 n r ok l1 l2)
qed

text \<open>
  Claim C3. When a scan succeeds on a database that meets the schema's constraints, the
  \<open>previousStatus\<close> of the answer is the status the pallet had, the pallet's status
  afterwards is the requested one, the one audit row appended carries exactly this pair
  under the pallet's id, and the answer holds the updated pallet with both statuses.
\<close>

theorem scan_pallet_records_transition:
  assumes "schema_ok d" and "scan_pallet L now u pid b d = (Success c x, d')"
  shows "\<exists>s p0 p' a.
           the_pallet pid d = Some p0 \<and> newStatus b = JStr s
         \<and> x = (Some p', status p0, newStatus b)
         \<and> the_pallet pid d' = Some p' \<and> status p' = s
         \<and> pallet_scans d' = pallet_scans d @ [a]
         \<and> scan_pallet_id a = pid
         \<and> previous_status a = Some (status p0) \<and> new_status a = s"
proof -
  from scan_pallet_Success_schema[OF assms]
  obtain s p0 loc a where s: "newStatus b = JStr s"
    and p0: "the_pallet pid d = Some p0"
    and x: "x = (Some (scan_write s now loc p0), status p0, JStr s)"
    and d': "d' = d\<lparr>pallets := map (\<lambda>p. if pallet_id p = pid then scan_write s now loc p else p)
                                (pallets d),
                   pallet_scans := pallet_scans d @ [a]\<rparr>"
    and a: "scan_pallet_id a = pid" "previous_status a = Some (status p0)" "new_status a = s"
    by blast
  have "the_pallet pid d' = Some (scan_write s now loc p0)"
    unfolding d' the_pallet_after_scan using p0 by simp
  moreover have "pallet_scans d' = pallet_scans d @ [a]" by (simp add: d')
  ultimately show ?thesis
    using s p0 x a status_scan_write[of s now loc p0] by auto
qed

theorem scan_pallet_records_transition_witness:
  "schema_ok demo_db1
   \<and> scan_pallet plain_lib 5 demo_flo ''PLT001'' (status_body ''At Warehouse'') demo_db1
       = (Success 200 (Some (demo_pallet\<lparr>status := ''At Warehouse'', updated_at := 5\<rparr>),
                       ''At Production'', JStr ''At Warehouse''), demo_db2)
   \<and> the_pallet ''PLT001'' demo_db1 = Some demo_pallet
   \<and> map_option status (the_pallet ''PLT001'' demo_db2) = Some ''At Warehouse''
   \<and> (\<exists>a. pallet_scans demo_db2 = pallet_scans demo_db1 @ [a]
          \<and> scan_pallet_id a = ''PLT001''
          \<and> previous_status a = Some ''At Production'' \<and> new_status a = ''At Warehouse'')"
proof -
  have h1: "schema_ok demo_db1" by code_simp
  have h2: "scan_pallet plain_lib 5 demo_flo ''PLT001'' (status_body ''At Warehouse'') demo_db1
       = (Success 200 (Some (demo_pallet\<lparr>status := ''At Warehouse'', updated_at := 5\<rparr>),
                       ''At Production'', JStr ''At Warehouse''), demo_db2)"
    by code_simp
  have tp: "the_pallet ''PLT001'' demo_db1 = Some demo_pallet" by code_simp
  have ns: "newStatus (status_body ''At Warehouse'') = JStr ''At Warehouse''" by code_simp
  have st: "status demo_pallet = ''At Production''" by code_simp
  from scan_pallet_records_transition[OF h1 h2]
  obtain s p0 p' a where "the_pallet ''PLT001'' demo_db1 = Some p0"
    and "newStatus (status_body ''At Warehouse'') = JStr s"
    and "the_pallet ''PLT001'' demo_db2 = Some p'" and "status p' = s"
    and "pallet_scans demo_db2 = pallet_scans demo_db1 @ [a]"
    and "scan_pallet_id a = ''PLT001''"
    and "previous_status a = Some (status p0)" and "new_status a = s"
    by blast
  with tp ns st have "map_option status (the_pallet ''PLT001'' demo_db2) = Some ''At Warehouse''"
    and "\<exists>a. pallet_scans demo_db2 = pallet_scans demo_db1 @ [a]
          \<and> scan_pallet_id a = ''PLT001''
          \<and> previous_status a = Some ''At Production'' \<and> new_status a = ''At Warehouse''"
    by auto
  with h1 h2 tp show ?thesis by (intro conjI)
qed

text \<open>
  Claim C4. A scan whose requested status is not one of the seven values answers 400
  \<open>Invalid status\<close> and leaves the database as it was. No other check reads the pair of
  statuses: on a database that meets the schema's constraints, a scan that asks for one of
  the seven statuses is accepted exactly when its rows can be stored (\<open>scan_storable\<close>:
  the pallet exists, the id, the location, the coordinates and the notes are taken by their
  columns, and the caller's \<open>flo_id\<close>, or the username of a caller without one, is the
  \<open>flo_id\<close> of a stored user), a condition that names neither the pallet's status nor the
  requested one. So for every body and every caller, whether the scan is accepted is the
  same for all 49 pairs of a stored and a requested status, and an accepted scan gives the
  pallet the requested status, whatever it was. An administrator has no \<open>flo_id\<close>: the
  audit row then carries the username, the foreign key on \<open>flo_id\<close> fails, and the scan
  is answered 500 for every pair alike.
\<close>

theorem scan_pallet_checks_membership_only:
  "(\<not> js_includes validStatuses (newStatus b)
      \<longrightarrow> scan_pallet L now u pid b d = (Failure 400 ''Invalid status'', d))
   \<and> (schema_ok d \<and> js_includes validStatuses (newStatus b)
      \<longrightarrow> accepted (fst (scan_pallet L now u pid b d)) = scan_storable L u pid b d)
   \<and> (schema_ok d \<and> t \<in> set validStatuses \<and> s \<in> set validStatuses
        \<and> t' \<in> set validStatuses \<and> s' \<in> set validStatuses
      \<longrightarrow> accepted (fst (scan_pallet L now u pid (b\<lparr>newStatus := JStr s\<rparr>) (restatus pid t d)))
          = accepted (fst (scan_pallet L now u pid (b\<lparr>newStatus := JStr s'\<rparr>)
                             (restatus pid t' d))))
   \<and> (schema_ok d \<and> the_pallet pid d = Some p0 \<and> newStatus b = JStr s
        \<and> s \<in> set validStatuses \<and> scan_storable L u pid b d
      \<longrightarrow> status p0 \<in> set validStatuses
          \<and> (\<exists>p' d'. scan_pallet L now u pid b d
                        = (Success 200 (Some p', status p0, JStr s), d')
                     \<and> the_pallet pid d' = Some p' \<and> status p' = s))"
proof (intro conjI impI)
  assume "\<not> js_includes validStatuses (newStatus b)"
  then show "scan_pallet L now u pid b d = (Failure 400 ''Invalid status'', d)"
    by (rule scan_pallet_invalid)
next
  assume "schema_ok d \<and> js_includes validStatuses (newStatus b)"
  then show "accepted (fst (scan_pallet L now u pid b d)) = scan_storable L u pid b d"
    using scan_pallet_accepted_iff by blast
next
  assume h: "schema_ok d \<and> t \<in> set validStatuses \<and> s \<in> set validStatuses
        \<and> t' \<in> set validStatuses \<and> s' \<in> set validStatuses"
  have any: "accepted (fst (scan_pallet L now u pid (b\<lparr>newStatus := JStr z\<rparr>) (restatus pid y d)))
          = scan_storable L u pid b d"
    if "y \<in> set validStatuses" "z \<in> set validStatuses" for y z
  proof -
    have ok: "schema_ok (restatus pid y d)"
      using h that(1) by (simp add: schema_ok_restatus)
    have inc: "js_includes validStatuses (newStatus (b\<lparr>newStatus := JStr z\<rparr>))"
      using that(2) by simp
    from scan_pallet_accepted_iff[OF ok inc]
    show ?thesis by (simp add: scan_storable_restatus scan_storable_newStatus)
  qed
  from h any[of t s] any[of t' s'] show "accepted (fst (scan_pallet L now u pid (b\<lparr>newStatus := JStr s\<rparr>) (restatus pid t d)))
          = accepted (fst (scan_pallet L now u pid (b\<lparr>newStatus := JStr s'\<rparr>)
                             (restatus pid t' d)))"
    by simp
next
  assume h: "schema_ok d \<and> the_pallet pid d = Some p0 \<and> newStatus b = JStr s
        \<and> s \<in> set validStatuses \<and> scan_storable L u pid b d"
  then show "status p0 \<in> set validStatuses"
    using schema_ok_the_pallet(2) by blast
next
  assume h: "schema_ok d \<and> the_pallet pid d = Some p0 \<and> newStatus b = JStr s
        \<and> s \<in> set validStatuses \<and> scan_storable L u pid b d"
  then obtain x d' where r: "scan_pallet L now u pid b d = (Success 200 x, d')"
    using scan_pallet_storable_Success[of d b s L u pid now] by blast
  from scan_pallet_Success_schema[OF _ r] h
  obtain s1 p1 loc a where s1: "newStatus b = JStr s1" and p1: "the_pallet pid d = Some p1"
    and x: "x = (Some (scan_write s1 now loc p1), status p1, JStr s1)"
    and d': "d' = d\<lparr>pallets := map (\<lambda>p. if pallet_id p = pid then scan_write s1 now loc p else p)
                                (pallets d),
                   pallet_scans := pallet_scans d @ [a]\<rparr>"
    by blast
  from s1 p1 h have e: "s1 = s" "p1 = p0" by simp_all
  have "the_pallet pid d' = Some (scan_write s now loc p0)"
    unfolding d' e the_pallet_after_scan using h by simp
  with r x e show "\<exists>p' d'. scan_pallet L now u pid b d
                        = (Success 200 (Some p', status p0, JStr s), d')
                     \<and> the_pallet pid d' = Some p' \<and> status p' = s"
    using status_scan_write[of s now loc p0] by blast
qed

theorem scan_pallet_checks_membership_only_witness:
  "scan_pallet plain_lib 9 demo_flo ''PLT001'' (status_body ''Shipped'') demo_db2
     = (Failure 400 ''Invalid status'', demo_db2)
   \<and> schema_ok demo_db2
   \<and> map_option status (the_pallet ''PLT001'' demo_db2) = Some ''At Warehouse''
   \<and> scan_storable plain_lib demo_flo ''PLT001'' (status_body ''At Production'') demo_db2
   \<and> accepted (fst (scan_pallet plain_lib 9 demo_flo ''PLT001'' (status_body ''At Production'')
                       demo_db2))
   \<and> (\<exists>p' d'. scan_pallet plain_lib 9 demo_flo ''PLT001'' (status_body ''At Production'') demo_db2
                 = (Success 200 (Some p', ''At Warehouse'', JStr ''At Production''), d')
              \<and> the_pallet ''PLT001'' d' = Some p' \<and> status p' = ''At Production'')
   \<and> accepted (fst (scan_pallet plain_lib 9 demo_flo ''PLT001''
                       (demo_update\<lparr>newStatus := JStr ''Delivered''\<rparr>)
                       (restatus ''PLT001'' ''At Production'' demo_db2)))
     = accepted (fst (scan_pallet plain_lib 9 demo_flo ''PLT001''
                       (demo_update\<lparr>newStatus := JStr ''At Production''\<rparr>)
                       (restatus ''PLT001'' ''Delivered'' demo_db2)))
   \<and> \<not> scan_storable plain_lib demo_admin ''PLT001'' (status_body ''At Production'') demo_db2
   \<and> \<not> accepted (fst (scan_pallet plain_lib 9 demo_admin ''PLT001''
                         (status_body ''At Production'') demo_db2))"
proof -
  let ?p0 = "demo_pallet\<lparr>status := ''At Warehouse'', updated_at := 5\<rparr>"
  let ?b = "status_body ''At Production''"
  have h1: "\<not> js_includes validStatuses (newStatus (status_body ''Shipped''))" by code_simp
  have ok: "schema_ok demo_db2" by code_simp
  have inc: "js_includes validStatuses (newStatus ?b)" by code_simp
  have tp: "the_pallet ''PLT001'' demo_db2 = Some ?p0" by code_simp
  have ns: "newStatus ?b = JStr ''At Production''" by code_simp
  have v: "''At Production'' \<in> set validStatuses" "''Delivered'' \<in> set validStatuses"
    by code_simp+
  have st: "scan_storable plain_lib demo_flo ''PLT001'' ?b demo_db2" by code_simp
  have nst: "\<not> scan_storable plain_lib demo_admin ''PLT001'' ?b demo_db2" by code_simp
  have s0: "status ?p0 = ''At Warehouse''" by simp
  note T = scan_pallet_checks_membership_only
             [of "status_body ''Shipped''" plain_lib 9 demo_flo "''PLT001''" demo_db2]
  from T h1 have a: "scan_pallet plain_lib 9 demo_flo ''PLT001'' (status_body ''Shipped'') demo_db2
     = (Failure 400 ''Invalid status'', demo_db2)"
    by blast
  note F = scan_pallet_checks_membership_only
             [of ?b plain_lib 9 demo_flo "''PLT001''" demo_db2
                 "''At Production''" "''At Production''" "''Delivered''" "''At Production''" ?p0]
  from F ok inc st
  have acc: "accepted (fst (scan_pallet plain_lib 9 demo_flo ''PLT001'' ?b demo_db2))"
    by blast
  from F ok tp ns v st
  have "\<exists>p' d'. scan_pallet plain_lib 9 demo_flo ''PLT001'' ?b demo_db2
                 = (Success 200 (Some p', status ?p0, JStr ''At Production''), d')
              \<and> the_pallet ''PLT001'' d' = Some p' \<and> status p' = ''At Production''"
    by blast
  then have c: "\<exists>p' d'. scan_pallet plain_lib 9 demo_flo ''PLT001'' ?b demo_db2
                 = (Success 200 (Some p', ''At Warehouse'', JStr ''At Production''), d')
              \<and> the_pallet ''PLT001'' d' = Some p' \<and> status p' = ''At Production''"
    unfolding s0 .
  note I = scan_pallet_checks_membership_only
             [of demo_update plain_lib 9 demo_flo "''PLT001''" demo_db2
                 "''At Production''" "''Delivered''" "''Delivered''" "''At Production''"]
  from I ok v
  have ind: "accepted (fst (scan_pallet plain_lib 9 demo_flo ''PLT001''
                       (demo_update\<lparr>newStatus := JStr ''Delivered''\<rparr>)
                       (restatus ''PLT001'' ''At Production'' demo_db2)))
     = accepted (fst (scan_pallet plain_lib 9 demo_flo ''PLT001''
                       (demo_update\<lparr>newStatus := JStr ''At Production''\<rparr>)
                       (restatus ''PLT001'' ''Delivered'' demo_db2)))"
    by blast
  note A = scan_pallet_checks_membership_only
             [of ?b plain_lib 9 demo_admin "''PLT001''" demo_db2]
  from A ok inc nst
  have nacc: "\<not> accepted (fst (scan_pallet plain_lib 9 demo_admin ''PLT001'' ?b demo_db2))"
    by blast
  have b: "map_option status (the_pallet ''PLT001'' demo_db2) = Some ''At Warehouse''"
    using tp by simp
  show ?thesis by (intro conjI a ok b st acc c ind nst nacc)
qed

text \<open>
  Claim C5, as the code has it. The status is validated before the pallet is looked up:
  a scan of the unknown PLT404 that asks for the status \<open>Shipped\<close> is answered 400
  \<open>Invalid status\<close>, not 404. And the lookup itself can fail: a \<open>palletId\<close> that holds
  the character U+0000 names no stored pallet, the database refuses it as a text
  parameter of the SELECT, and a scan of it with a valid status is answered 500
  \<open>Failed to scan pallet\<close>, not 404.
\<close>

theorem scan_missing_pallet_invalid_status_counterexample:
  "the_pallet ''PLT404'' demo_db1 = None
   \<and> scan_pallet plain_lib 5 demo_flo ''PLT404'' (status_body ''Shipped'') demo_db1
       = (Failure 400 ''Invalid status'', demo_db1)
   \<and> fst (scan_pallet plain_lib 5 demo_flo ''PLT404'' (status_body ''Shipped'') demo_db1)
       \<noteq> Failure 404 ''Pallet not found''
   \<and> the_pallet nul_id demo_db1 = None
   \<and> js_includes validStatuses (newStatus (status_body ''At Warehouse''))
   \<and> scan_pallet plain_lib 5 demo_flo nul_id (status_body ''At Warehouse'') demo_db1
       = (Failure 500 ''Failed to scan pallet'', demo_db1)
   \<and> fst (scan_pallet plain_lib 5 demo_flo nul_id (status_body ''At Warehouse'') demo_db1)
       \<noteq> Failure 404 ''Pallet not found''"
  by code_simp

text \<open>
  Claim C5, amended. A scan of a \<open>palletId\<close> that names no stored pallet fails and
  leaves the database as it was, so no audit row is created: with 400
  \<open>Invalid status\<close> when the requested status is not one of the seven values; otherwise
  with 404 \<open>Pallet not found\<close> when the \<open>palletId\<close> is free of the character U+0000,
  and with 500 \<open>Failed to scan pallet\<close> when it holds that character, for then the
  SELECT that looks the pallet up fails.
\<close>

theorem scan_pallet_missing_pallet:
  assumes "the_pallet pid d = None"
  shows "scan_pallet L now u pid b d =
           (if \<not> js_includes validStatuses (newStatus b) then Failure 400 ''Invalid status''
            else if nul_free pid then Failure 404 ''Pallet not found''
            else Failure 500 ''Failed to scan pallet'', d)"
proof (cases "js_includes validStatuses (newStatus b)")
  case False
  then show ?thesis by (simp add: scan_pallet_invalid)
next
  case valid: True
  show ?thesis
  proof (cases "nul_free pid")
    case True
    from the_pallet_None_select[OF assms True]
    have "select_pallets L (JStr pid) d = Some []" .
    with valid True show ?thesis by (simp add: scan_pallet_missing)
  next
    case False
    then have "select_pallets L (JStr pid) d = None" by (rule select_pallets_nul)
    with valid False show ?thesis by (simp add: scan_pallet_select_fails)
  qed
qed

theorem scan_pallet_missing_pallet_witness:
  "the_pallet ''PLT404'' demo_db1 = None
   \<and> scan_pallet plain_lib 5 demo_flo ''PLT404'' (status_body ''At Warehouse'') demo_db1
       = (Failure 404 ''Pallet not found'', demo_db1)
   \<and> scan_pallet plain_lib 5 demo_flo ''PLT404'' (status_body ''Shipped'') demo_db1
       = (Failure 400 ''Invalid status'', demo_db1)
   \<and> the_pallet nul_id demo_db1 = None
   \<and> scan_pallet plain_lib 5 demo_flo nul_id (status_body ''At Warehouse'') demo_db1
       = (Failure 500 ''Failed to scan pallet'', demo_db1)"
proof -
  have h: "the_pallet ''PLT404'' demo_db1 = None" by code_simp
  have h0: "the_pallet nul_id demo_db1 = None" by code_simp
  have v: "js_includes validStatuses (newStatus (status_body ''At Warehouse''))" by code_simp
  have nv: "\<not> js_includes validStatuses (newStatus (status_body ''Shipped''))" by code_simp
  have f: "nul_free ''PLT404''" by code_simp
  have nf: "\<not> nul_free nul_id" by code_simp
  from scan_pallet_missing_pallet[OF h, of plain_lib 5 demo_flo "status_body ''At Warehouse''"] v f
  have a: "scan_pallet plain_lib 5 demo_flo ''PLT404'' (status_body ''At Warehouse'') demo_db1
       = (Failure 404 ''Pallet not found'', demo_db1)"
    by simp
  from scan_pallet_missing_pallet[OF h, of plain_lib 5 demo_flo "status_body ''Shipped''"] nv
  have b: "scan_pallet plain_lib 5 demo_flo ''PLT404'' (status_body ''Shipped'') demo_db1
       = (Failure 400 ''Invalid status'', demo_db1)"
    by simp
  from scan_pallet_missing_pallet[OF h0, of plain_lib 5 demo_flo "status_body ''At Warehouse''"] v nf
  have c: "scan_pallet plain_lib 5 demo_flo nul_id (status_body ''At Warehouse'') demo_db1
       = (Failure 500 ''Failed to scan pallet'', demo_db1)"
    by simp
  show ?thesis by (intro conjI h a b h0 c)
qed

section \<open>Administrative update\<close>

text \<open>
  Claim C9. The update route changes the status of no pallet and leaves the audit table
  as it was, whatever the request and whether it succeeds or not. More generally a
  request that is not a scan (create, history, update, delete, the QR statement) never
  changes the status of a pallet that exists before and after it.
\<close>

theorem admin_update_keeps_status_and_audit:
  "map status (pallets (snd (update_pallet L now pid b d))) = map status (pallets d)
   \<and> pallet_scans (snd (update_pallet L now pid b d)) = pallet_scans d
   \<and> (\<not> is_scan r \<and> the_pallet q d = Some p0 \<and> the_pallet q (step L d r) = Some p1
        \<longrightarrow> status p1 = status p0)"
  using update_pallet_frame[of L now pid b d] step_keeps_status[of r q d p0 L p1]
  by blast

theorem admin_update_keeps_status_and_audit_witness:
  "update_pallet plain_lib 7 ''PLT001'' demo_update demo_db2
     = (Success 200 (Some (demo_pallet\<lparr>item_quantity := 50, status := ''At Warehouse'',
                             warehouse_location := Some ''B-01-2'', updated_at := 7\<rparr>)),
        step plain_lib demo_db2 (Update 7 ''PLT001'' demo_update))
   \<and> map status (pallets (snd (update_pallet plain_lib 7 ''PLT001'' demo_update demo_db2)))
       = [''At Warehouse'']
   \<and> pallet_scans (snd (update_pallet plain_lib 7 ''PLT001'' demo_update demo_db2))
       = pallet_scans demo_db2
   \<and> status (demo_pallet\<lparr>item_quantity := 50, status := ''At Warehouse'',
                 warehouse_location := Some ''B-01-2'', updated_at := 7\<rparr>)
       = status (demo_pallet\<lparr>status := ''At Warehouse'', updated_at := 5\<rparr>)"
proof -
  let ?p0 = "demo_pallet\<lparr>status := ''At Warehouse'', updated_at := 5\<rparr>"
  let ?p1 = "demo_pallet\<lparr>item_quantity := 50, status := ''At Warehouse'',
                 warehouse_location := Some ''B-01-2'', updated_at := 7\<rparr>"
  let ?r = "Update 7 ''PLT001'' demo_update"
  have e0: "update_pallet plain_lib 7 ''PLT001'' demo_update demo_db2
     = (Success 200 (Some ?p1), step plain_lib demo_db2 ?r)"
    by code_simp
  have e1: "map status (pallets demo_db2) = [''At Warehouse'']" by code_simp
  have h: "\<not> is_scan ?r \<and> the_pallet ''PLT001'' demo_db2 = Some ?p0
      \<and> the_pallet ''PLT001'' (step plain_lib demo_db2 ?r) = Some ?p1"
    by code_simp
  note T = admin_update_keeps_status_and_audit
             [of plain_lib 7 "''PLT001''" demo_update demo_db2 ?r "''PLT001''" ?p0 ?p1]
  from T e1 have a: "map status (pallets (snd (update_pallet plain_lib 7 ''PLT001'' demo_update demo_db2)))
       = [''At Warehouse'']"
    by simp
  from T have b: "pallet_scans (snd (update_pallet plain_lib 7 ''PLT001'' demo_update demo_db2))
       = pallet_scans demo_db2"
    by blast
  from T h have c: "status ?p1 = status ?p0" by blast
  show ?thesis by (intro conjI e0 a b c)
qed

section \<open>History\<close>

text \<open>
  Claim C2, as the code has it. The history is ordered by \<open>scanned_at\<close>, the start time
  of the scan's transaction, not by commit order. Three accepted scans of PLT001 that
  commit in the order of the start times 5, 7, 3 give a history in the order 7, 5, 3:
  read from oldest to newest, and also read as returned, its first two rows do not link,
  and the pallet's status \<open>At Warehouse\<close> is not the new status of the row returned
  first.
\<close>

theorem history_clock_skew_counterexample:
  "create_pallet plain_lib 1 demo_create demo_db = (Success 201 (Some demo_pallet), demo_db1)
   \<and> scan_all plain_lib ''PLT001'' skew_scans demo_db1 = Some skew_db
   \<and> get_history plain_lib ''PLT001'' skew_db = Success 200 (''PLT001'', skew_history)
   \<and> map scanned_at skew_history = [7, 5, 3]
   \<and> map previous_status skew_history
       = [Some ''Picked from Production'', Some ''At Production'', Some ''In Transit to Warehouse'']
   \<and> map new_status skew_history
       = [''In Transit to Warehouse'', ''Picked from Production'', ''At Warehouse'']
   \<and> previous_status (rev skew_history ! 1) \<noteq> Some (new_status (rev skew_history ! 0))
   \<and> previous_status (skew_history ! 1) \<noteq> Some (new_status (skew_history ! 0))
   \<and> map_option status (the_pallet ''PLT001'' skew_db) = Some ''At Warehouse''
   \<and> map_option status (the_pallet ''PLT001'' skew_db) \<noteq> Some (new_status (hd skew_history))"
  by code_simp

text \<open>
  Claim C2, amended. Let a pallet be created on a database that meets the schema's
  constraints and let \<open>n\<close> scans of it be accepted one after the other. Then its
  history has \<open>n\<close> rows; in commit order its audit rows form a chain from
  \<open>At Production\<close> to the pallet's current status. When the scans' timestamps increase
  strictly in commit order, the history is these rows newest first: read from oldest to
  newest, the new status of row \<open>i\<close> is the previous status of row \<open>i + 1\<close>, the
  oldest row starts at \<open>At Production\<close>, and the pallet's status is the new status of the
  row returned first.
\<close>

theorem history_chain:
  assumes ok: "schema_ok d0"
    and created: "create_pallet L t0 b0 d0 = (Success c (Some p), d1)"
    and scans: "scan_all L (pallet_id p) reqs d1 = Some dn"
  shows "\<exists>h p'. get_history L (pallet_id p) dn = Success 200 (pallet_id p, h)
           \<and> length h = length reqs
           \<and> the_pallet (pallet_id p) dn = Some p'
           \<and> chained ''At Production'' (audit_rows (pallet_id p) dn) (status p')
           \<and> (sorted_wrt (<) (map fst reqs) \<longrightarrow>
                 h = rev (audit_rows (pallet_id p) dn)
               \<and> (\<forall>i. Suc i < length h
                     \<longrightarrow> Some (new_status (rev h ! i)) = previous_status (rev h ! Suc i))
               \<and> (h \<noteq> [] \<longrightarrow> status p' = new_status (hd h)
                               \<and> previous_status (last h) = Some ''At Production''))"
proof -
  let ?pid = "pallet_id p"
  let ?rows = "audit_rows ?pid dn"
  let ?h = "sort_key (\<lambda>s. - scanned_at s) ?rows"
  from create_pallet_Success[OF created]
  obtain row where "Some p = Some row" and "nul_free (pallet_id row)"
    by (elim exE conjE)
  then have nf: "nul_free ?pid" by simp
  from scans_after_create[OF ok created scans]
  obtain p' where tp: "the_pallet ?pid dn = Some p'"
    and ch: "chained ''At Production'' ?rows (status p')"
    and ts: "map scanned_at ?rows = map fst reqs"
    by blast
  have gh: "get_history L ?pid dn = Success 200 (?pid, ?h)"
    using nf by (simp add: get_history_eq)
  have len: "length ?h = length reqs"
    using ts by (metis length_map length_sort)
  have ord: "?h = rev ?rows
       \<and> (\<forall>i. Suc i < length ?h
             \<longrightarrow> Some (new_status (rev ?h ! i)) = previous_status (rev ?h ! Suc i))
       \<and> (?h \<noteq> [] \<longrightarrow> status p' = new_status (hd ?h)
                       \<and> previous_status (last ?h) = Some ''At Production'')"
    if inc: "sorted_wrt (<) (map fst reqs)"
  proof -
    have h: "?h = rev ?rows"
      by (rule sort_key_desc_rev) (simp add: ts inc)
    have 1: "\<forall>i. Suc i < length ?h
             \<longrightarrow> Some (new_status (rev ?h ! i)) = previous_status (rev ?h ! Suc i)"
      unfolding h using chained_nth[OF ch] by simp
    have 2: "?h \<noteq> [] \<longrightarrow> status p' = new_status (hd ?h)
                       \<and> previous_status (last ?h) = Some ''At Production''"
      unfolding h using chained_last[OF ch] chained_hd[OF ch]
      by (simp add: hd_rev last_rev)
    from h 1 2 show ?thesis by blast
  qed
  from gh len tp ch ord show ?thesis by blast
qed

theorem history_chain_witness:
  "schema_ok demo_db
   \<and> create_pallet plain_lib 1 demo_create demo_db = (Success 201 (Some demo_pallet), demo_db1)
   \<and> scan_all plain_lib ''PLT001'' ordered_scans demo_db1 = Some ordered_db
   \<and> sorted_wrt (<) (map fst ordered_scans)
   \<and> (\<exists>h p'. get_history plain_lib ''PLT001'' ordered_db = Success 200 (''PLT001'', h)
         \<and> length h = 3
         \<and> the_pallet ''PLT001'' ordered_db = Some p'
         \<and> h = rev (audit_rows ''PLT001'' ordered_db)
         \<and> Some (new_status (rev h ! 0)) = previous_status (rev h ! 1)
         \<and> Some (new_status (rev h ! 1)) = previous_status (rev h ! 2)
         \<and> status p' = new_status (hd h)
         \<and> previous_status (last h) = Some ''At Production'')"
proof -
  have h1: "schema_ok demo_db" by code_simp
  have h2: "create_pallet plain_lib 1 demo_create demo_db = (Success 201 (Some demo_pallet), demo_db1)"
    by code_simp
  have pid: "pallet_id demo_pallet = ''PLT001''" by code_simp
  have h3: "scan_all plain_lib (pallet_id demo_pallet) ordered_scans demo_db1 = Some ordered_db"
    by code_simp
  have h4: "sorted_wrt (<) (map fst ordered_scans)" by code_simp
  have n: "length ordered_scans = 3" by code_simp
  from history_chain[OF h1 h2 h3] h4
  obtain h p' where g: "get_history plain_lib (pallet_id demo_pallet) ordered_db
                          = Success 200 (pallet_id demo_pallet, h)"
    and l: "length h = length ordered_scans"
    and t: "the_pallet (pallet_id demo_pallet) ordered_db = Some p'"
    and r: "h = rev (audit_rows (pallet_id demo_pallet) ordered_db)"
    and c: "\<forall>i. Suc i < length h
                     \<longrightarrow> Some (new_status (rev h ! i)) = previous_status (rev h ! Suc i)"
    and e: "h \<noteq> [] \<longrightarrow> status p' = new_status (hd h)
                               \<and> previous_status (last h) = Some ''At Production''"
    by blast
  from l n have l3: "length h = 3" by simp
  then have ne: "h \<noteq> []" by auto
  from c l3 have c0: "Some (new_status (rev h ! 0)) = previous_status (rev h ! 1)"
    and c1: "Some (new_status (rev h ! 1)) = previous_status (rev h ! 2)"
    by (simp_all add: numeral_2_eq_2)
  from g l3 t r c0 c1 e ne
  have "\<exists>h p'. get_history plain_lib ''PLT001'' ordered_db = Success 200 (''PLT001'', h)
         \<and> length h = 3
         \<and> the_pallet ''PLT001'' ordered_db = Some p'
         \<and> h = rev (audit_rows ''PLT001'' ordered_db)
         \<and> Some (new_status (rev h ! 0)) = previous_status (rev h ! 1)
         \<and> Some (new_status (rev h ! 1)) = previous_status (rev h ! 2)
         \<and> status p' = new_status (hd h)
         \<and> previous_status (last h) = Some ''At Production''"
    unfolding pid by blast
  with h1 h2 h3[unfolded pid] h4 show ?thesis by (intro conjI)
qed

text \<open>
  Claim C6. The history route returns the audit rows of the pallet by descending
  \<open>scanned_at\<close>. It never looks the pallet up: for a \<open>palletId\<close> that names no pallet
  of a database that meets the schema's constraints, and for one whose pallet has just
  been deleted (the delete cascades to the audit rows), it answers 200 with the empty
  history, where the other routes on \<open>/:palletId\<close> answer 404 \<open>Pallet not found\<close>.
  Its one failure is that of its SELECT: a \<open>palletId\<close> that holds the character U+0000
  is refused by the database as a text parameter, and the route answers 500
  \<open>Failed to fetch pallet history\<close>; for every other \<open>palletId\<close> it answers 200.
\<close>

theorem history_of_missing_pallet_is_empty:
  "(schema_ok d \<and> the_pallet pid d = None \<and> nul_free pid
      \<longrightarrow> get_history L pid d = Success 200 (pid, []))
   \<and> (nul_free pid
      \<longrightarrow> the_pallet pid (snd (delete_pallet L pid d)) = None
          \<and> get_history L pid (snd (delete_pallet L pid d)) = Success 200 (pid, []))
   \<and> (nul_free pid
      \<longrightarrow> (\<exists>h. get_history L pid d = Success 200 (pid, h)
               \<and> sorted_wrt (\<lambda>a b. scanned_at a \<ge> scanned_at b) h))
   \<and> (\<not> nul_free pid
      \<longrightarrow> get_history L pid d = Failure 500 ''Failed to fetch pallet history'')"
proof (intro conjI impI)
  assume h: "schema_ok d \<and> the_pallet pid d = None \<and> nul_free pid"
  then have "audit_rows pid d = []"
    using audit_rows_absent[of d pid] by (simp add: the_pallet_None_iff)
  with h show "get_history L pid d = Success 200 (pid, [])"
    by (simp add: get_history_eq)
next
  assume "nul_free pid"
  then show "the_pallet pid (snd (delete_pallet L pid d)) = None"
    by (rule the_pallet_deleted)
next
  assume "nul_free pid"
  then show "get_history L pid (snd (delete_pallet L pid d)) = Success 200 (pid, [])"
    by (simp add: get_history_eq audit_rows_deleted)
next
  assume "nul_free pid"
  then show "\<exists>h. get_history L pid d = Success 200 (pid, h)
          \<and> sorted_wrt (\<lambda>a b. scanned_at a \<ge> scanned_at b) h"
    using sort_key_desc_sorted[of "audit_rows pid d"] by (simp add: get_history_eq)
next
  assume "\<not> nul_free pid"
  then show "get_history L pid d = Failure 500 ''Failed to fetch pallet history''"
    by (simp add: get_history_eq)
qed

theorem history_of_missing_pallet_is_empty_witness:
  "schema_ok demo_db2 \<and> the_pallet ''PLT404'' demo_db2 = None \<and> nul_free ''PLT404''
   \<and> get_history plain_lib ''PLT404'' demo_db2 = Success 200 (''PLT404'', [])
   \<and> length (audit_rows ''PLT001'' demo_db2) = 1
   \<and> delete_pallet plain_lib ''PLT001'' demo_db2
       = (Success 200 ''Pallet deleted successfully'', snd (delete_pallet plain_lib ''PLT001'' demo_db2))
   \<and> the_pallet ''PLT001'' (snd (delete_pallet plain_lib ''PLT001'' demo_db2)) = None
   \<and> get_history plain_lib ''PLT001'' (snd (delete_pallet plain_lib ''PLT001'' demo_db2))
       = Success 200 (''PLT001'', [])
   \<and> (\<exists>h. get_history plain_lib ''PLT001'' demo_db2 = Success 200 (''PLT001'', h)
          \<and> sorted_wrt (\<lambda>a b. scanned_at a \<ge> scanned_at b) h)
   \<and> \<not> nul_free nul_id
   \<and> get_history plain_lib nul_id demo_db2 = Failure 500 ''Failed to fetch pallet history''"
proof -
  have h: "schema_ok demo_db2 \<and> the_pallet ''PLT404'' demo_db2 = None \<and> nul_free ''PLT404''"
    by code_simp
  have f: "nul_free ''PLT001''" by code_simp
  have nf: "\<not> nul_free nul_id" by code_simp
  have r: "length (audit_rows ''PLT001'' demo_db2) = 1" by code_simp
  have e: "delete_pallet plain_lib ''PLT001'' demo_db2
       = (Success 200 ''Pallet deleted successfully'', snd (delete_pallet plain_lib ''PLT001'' demo_db2))"
    by code_simp
  note T1 = history_of_missing_pallet_is_empty[of demo_db2 "''PLT404''" plain_lib]
  note T2 = history_of_missing_pallet_is_empty[of demo_db2 "''PLT001''" plain_lib]
  note T3 = history_of_missing_pallet_is_empty[of demo_db2 nul_id plain_lib]
  from T1 h have a: "get_history plain_lib ''PLT404'' demo_db2 = Success 200 (''PLT404'', [])"
    by blast
  from T2 f have b: "the_pallet ''PLT001'' (snd (delete_pallet plain_lib ''PLT001'' demo_db2)) = None"
    and c: "get_history plain_lib ''PLT001'' (snd (delete_pallet plain_lib ''PLT001'' demo_db2))
       = Success 200 (''PLT001'', [])"
    and s: "\<exists>h. get_history plain_lib ''PLT001'' demo_db2 = Success 200 (''PLT001'', h)
          \<and> sorted_wrt (\<lambda>a b. scanned_at a \<ge> scanned_at b) h"
    by blast+
  from T3 nf have g: "get_history plain_lib nul_id demo_db2
       = Failure 500 ''Failed to fetch pallet history''"
    by blast
  from h have h1: "schema_ok demo_db2" and h2: "the_pallet ''PLT404'' demo_db2 = None"
    and h3: "nul_free ''PLT404''"
    by simp_all
  show ?thesis by (intro conjI h1 h2 h3 a r e b c s nf g)
qed

end
